theory Spec2Isabelle
  imports Complex_Main "HOL-Library.AList" "HOL-Library.Log_Nat"
begin

section \<open>JSON values and JavaScript truthiness\<close>

text \<open>
  The values that travel through the service (\<open>any\<close>, \<open>T\<close>, \<open>Record<string, any>\<close>) are
  JSON values. Numbers on this protocol are identifiers and limits, so they are integers.
  An object is an association list in property order; a property that is missing reads
  as \<open>undefined\<close>, which is \<open>None\<close> of \<open>map_of\<close>.
\<close>

datatype json =
    JNull
  | JBool bool
  | JNum int
  | JStr string
  | JArr "json list"
  | JObj "(string \<times> json) list"

type_synonym obj = "(string \<times> json) list"

text \<open>What \<open>if (v)\<close> and \<open>v || w\<close> test.\<close>

fun truthy :: "json \<Rightarrow> bool" where
  "truthy JNull = False"
| "truthy (JBool b) = b"
| "truthy (JNum n) = (n \<noteq> 0)"
| "truthy (JStr s) = (s \<noteq> [])"
| "truthy (JArr xs) = True"
| "truthy (JObj kvs) = True"

text \<open>\<open>v || w\<close> where \<open>v\<close> may be \<open>undefined\<close>.\<close>

definition or_else :: "json option \<Rightarrow> json \<Rightarrow> json" where
  "or_else v w = (case v of None \<Rightarrow> w | Some x \<Rightarrow> if truthy x then x else w)"

section \<open>Strings\<close>

text \<open>
  A string is a list of 8-bit characters, and its length stands for \<open>.length\<close>.
  These are the characters that \<open>String.prototype.trim\<close> removes, among the 8-bit ones.
\<close>

definition is_ws :: "char \<Rightarrow> bool" where
  "is_ws c = (c = CHR 0x09 \<or> c = CHR 0x0A \<or> c = CHR 0x0B \<or> c = CHR 0x0C \<or> c = CHR 0x0D
              \<or> c = CHR 0x20 \<or> c = CHR 0xA0)"

definition trim :: "string \<Rightarrow> string" where
  "trim s = rev (dropWhile is_ws (rev (dropWhile is_ws s)))"

text \<open>Decimal rendering of a number inside a template literal.\<close>

fun string_of_nat :: "nat \<Rightarrow> string" where
  "string_of_nat n =
     (if n < 10 then [''0123456789'' ! n]
      else string_of_nat (n div 10) @ [''0123456789'' ! (n mod 10)])"

declare string_of_nat.simps [simp del]

text \<open>\<open>url.replace(/\/$/, "")\<close>: one trailing slash is removed.\<close>

definition strip_slash :: "string \<Rightarrow> string" where
  "strip_slash u = (if u \<noteq> [] \<and> last u = CHR ''/'' then butlast u else u)"

section \<open>The wire: requests, responses, thrown values\<close>

record preferences =
  odooUrl :: string
  apiKey :: string
  database :: string
  userLogin :: string

record rpc_params =
  service :: string
  call_method :: string
  args :: "json list"

text \<open>The object that is stringified into the body of the POST.\<close>

record rpc_body =
  jsonrpc :: string
  rpc_method :: string
  params :: rpc_params
  rpc_id :: int

text \<open>One call of \<open>fetch\<close>.\<close>

record request =
  url :: string
  http_method :: string
  content_type :: string
  body :: rpc_body

text \<open>What a \<open>throw\<close> or a rejected promise carries: an \<open>Error\<close> with its message, or
  a value that is not an instance of \<open>Error\<close>.\<close>

datatype thrown = Error string | NonError

text \<open>
  Modelled from the spec: the declaration of \<open>OdooResponse<T>\<close>, which the service imports
  from the module \<open>types\<close>, is not among the sources. The response shape is
  \<open>{ result?: T; error?: { message: string; data?: { name: string; message: string } } }\<close>,
  as the views that declare \<open>OdooResponse\<close> themselves have it. The type
  \<open>OdooSearchOptions\<close> of the same module is not modelled: options are any object.
\<close>

record error_data =
  data_name :: string
  data_message :: string

record rpc_error =
  message :: string
  data :: "error_data option"

record odoo_response =
  result :: "json option"
  error :: "rpc_error option"

text \<open>\<open>response.json()\<close> either rejects or resolves to the decoded envelope.\<close>

datatype decoded = Unparsable thrown | Decoded odoo_response

record response =
  status :: nat
  json_body :: decoded

text \<open>\<open>response.ok\<close> of the Fetch interface: the status is in the range 200 to 299.\<close>

definition ok :: "response \<Rightarrow> bool" where
  "ok r = (200 \<le> status r \<and> status r \<le> 299)"

datatype fetch_outcome = Rejected thrown | Resolved response

datatype toast_style = Failure

record toast =
  style :: toast_style
  title :: string
  toast_message :: string

section \<open>The service\<close>

text \<open>
  The environment of a service: the successive results of \<open>Math.random()\<close>, and the
  transport, which answers a call of \<open>fetch\<close> knowing every request made so far
  (the last element of the list is the request being answered).
\<close>

record env =
  math_random :: "nat \<Rightarrow> real"
  fetch :: "request list \<Rightarrow> fetch_outcome"

text \<open>
  An \<open>OdooService\<close> instance (\<open>preferences\<close>, \<open>uid\<close>) together with the effects it has had:
  how many random numbers it drew, the requests it sent, the toasts it showed.
  Output to the console is not part of the model.
\<close>

record odoo_service =
  prefs :: preferences
  uid :: json
  draws :: nat
  sent :: "request list"
  toasts :: "toast list"

definition new_OdooService :: "preferences \<Rightarrow> odoo_service" where
  "new_OdooService p = \<lparr>prefs = p, uid = JNull, draws = 0, sent = [], toasts = []\<rparr>"

definition apiUrl :: "preferences \<Rightarrow> string" where
  "apiUrl p = strip_slash (odooUrl p) @ ''/jsonrpc''"

text \<open>
  Numbers of the language are IEEE 754 doubles, and \<open>*\<close> on them yields the double nearest
  to the exact product, a tie going to the even significand. A double is a real number
  here. \<open>round_half_even\<close> is the nearest integer with ties to even; \<open>binary_exponent x\<close>
  is, for a positive \<open>x\<close>, the \<open>k\<close> with \<open>2 ^ k \<le> x < 2 ^ (k + 1)\<close>; \<open>to_double x\<close> is the
  double nearest to \<open>x\<close>, for \<open>x\<close> from 0 up to the largest double: a multiple of the spacing
  \<open>2 ^ (k - 52)\<close> of the doubles around \<open>x\<close>, where \<open>k\<close> is not below -1022, the exponent
  of the subnormal doubles.
\<close>

definition round_half_even :: "real \<Rightarrow> int" where
  "round_half_even x =
     (let n = \<lfloor>x\<rfloor>; f = x - of_int n
      in if f < 1 / 2 then n else if 1 / 2 < f then n + 1 else if even n then n else n + 1)"

definition binary_exponent :: "real \<Rightarrow> int" where
  "binary_exponent x = (if 1 \<le> x then bitlen \<lfloor>x\<rfloor> - 1 else - bitlen (\<lceil>1 / x\<rceil> - 1))"

definition to_double :: "real \<Rightarrow> real" where
  "to_double x =
     (if x \<le> 0 then 0
      else let u = 2 powi (max (binary_exponent x) (- 1022) - 52)
           in of_int (round_half_even (x / u)) * u)"

text \<open>
  \<open>Math.floor(r * 1000000)\<close> for a result \<open>r\<close> of \<open>Math.random()\<close>: the product is rounded
  to a double, and the floor of a double is exact.
\<close>

definition correlation_id :: "real \<Rightarrow> int" where
  "correlation_id r = \<lfloor>to_double (r * 1000000)\<rfloor>"

text \<open>The doubles, among the real numbers from 0 up to the largest double.\<close>

definition is_double :: "real \<Rightarrow> bool" where
  "is_double x = (to_double x = x)"

definition post :: "preferences \<Rightarrow> rpc_body \<Rightarrow> request" where
  "post p b = \<lparr>url = apiUrl p, http_method = ''POST'',
               content_type = ''application/json'', body = b\<rparr>"

text \<open>\<open>data.error.data?.message || data.error.message\<close>\<close>

definition error_text :: "rpc_error \<Rightarrow> string" where
  "error_text e =
     (case data e of
        None \<Rightarrow> message e
      | Some d \<Rightarrow> if data_message d \<noteq> [] then data_message d else message e)"

text \<open>
  The statements that follow \<open>await fetch(...)\<close>, the same in \<open>authenticate\<close> and in
  \<open>execute\<close>: the status check, the decoding, the check of the \<open>error\<close> field, and
  \<open>data.result || null\<close>.
\<close>

fun rpc_reply :: "fetch_outcome \<Rightarrow> thrown + json" where
  "rpc_reply (Rejected e) = Inl e"
| "rpc_reply (Resolved r) =
     (if \<not> ok r then Inl (Error (''HTTP error! status: '' @ string_of_nat (status r)))
      else case json_body r of
             Unparsable e \<Rightarrow> Inl e
           | Decoded d \<Rightarrow>
               (case error d of
                  Some er \<Rightarrow> Inl (Error (error_text er))
                | None \<Rightarrow> Inr (or_else (result d) JNull)))"

text \<open>\<open>error instanceof Error ? error.message : fallback\<close>\<close>

fun message_or :: "thrown \<Rightarrow> string \<Rightarrow> string" where
  "message_or (Error m) fallback = m"
| "message_or NonError fallback = fallback"

definition showToast :: "string \<Rightarrow> string \<Rightarrow> odoo_service \<Rightarrow> odoo_service" where
  "showToast t m s = s\<lparr>toasts := toasts s @ [\<lparr>style = Failure, title = t, toast_message = m\<rparr>]\<rparr>"

definition authBody :: "preferences \<Rightarrow> int \<Rightarrow> rpc_body" where
  "authBody p n =
     \<lparr>jsonrpc = ''2.0'', rpc_method = ''call'',
      params = \<lparr>service = ''common'', call_method = ''login'',
                args = [JStr (database p), JStr (userLogin p), JStr (apiKey p)]\<rparr>,
      rpc_id = n\<rparr>"

text \<open>Building a body draws one random number; \<open>fetch\<close> appends to the requests sent.\<close>

definition send :: "rpc_body \<Rightarrow> odoo_service \<Rightarrow> odoo_service" where
  "send b s = s\<lparr>draws := Suc (draws s), sent := sent s @ [post (prefs s) b]\<rparr>"

definition next_id :: "env \<Rightarrow> odoo_service \<Rightarrow> int" where
  "next_id e s = correlation_id (math_random e (draws s))"

definition authenticate :: "env \<Rightarrow> odoo_service \<Rightarrow> json \<times> odoo_service" where
  "authenticate e s =
     (if truthy (uid s) then (uid s, s)
      else
        let s1 = send (authBody (prefs s) (next_id e s)) s
        in case rpc_reply (fetch e (sent s1)) of
             Inr r \<Rightarrow> (r, s1\<lparr>uid := r\<rparr>)
           | Inl err \<Rightarrow>
               (JNull, showToast ''Authentication Error''
                         (message_or err ''Failed to authenticate with Odoo'') s1))"

definition requestBody :: "preferences \<Rightarrow> json \<Rightarrow> string \<Rightarrow> string \<Rightarrow> json list \<Rightarrow> obj \<Rightarrow> int \<Rightarrow> rpc_body" where
  "requestBody p u model meth as kwargs n =
     \<lparr>jsonrpc = ''2.0'', rpc_method = ''call'',
      params = \<lparr>service = ''object'', call_method = ''execute_kw'',
                args = [JStr (database p), u, JStr (apiKey p), JStr model, JStr meth,
                        JArr as, JObj kwargs]\<rparr>,
      rpc_id = n\<rparr>"

text \<open>\<open>execute\<close> returns normally (\<open>Inr\<close>) or throws (\<open>Inl\<close>); its \<open>catch\<close> rethrows.\<close>

definition execute ::
  "env \<Rightarrow> odoo_service \<Rightarrow> string \<Rightarrow> string \<Rightarrow> json list \<Rightarrow> obj \<Rightarrow> (thrown + json) \<times> odoo_service" where
  "execute e s model meth as kwargs =
     (let (u, s1) = authenticate e s
      in if \<not> truthy u then (Inr JNull, s1)
         else
           let s2 = send (requestBody (prefs s1) u model meth as kwargs (next_id e s1)) s1
           in (rpc_reply (fetch e (sent s2)), s2))"

definition searchRead ::
  "env \<Rightarrow> odoo_service \<Rightarrow> string \<Rightarrow> json list \<Rightarrow> obj \<Rightarrow> json \<times> odoo_service" where
  "searchRead e s model domain options =
     (case execute e s model ''search_read'' [JArr domain] options of
        (Inr r, s1) \<Rightarrow> (or_else (Some r) (JArr []), s1)
      | (Inl err, s1) \<Rightarrow>
          (JArr [], showToast ''Search Error'' (message_or err (''Failed to search '' @ model)) s1))"

definition name_domain :: "string \<Rightarrow> json list" where
  "name_domain query =
     [JStr ''|'', JArr [JStr ''name'', JStr ''ilike'', JStr query],
      JArr [JStr ''display_name'', JStr ''ilike'', JStr query]]"

text \<open>\<open>{ ...options, domain }\<close> is the object \<open>options\<close> with the property \<open>domain\<close> set.\<close>

definition searchByName ::
  "env \<Rightarrow> odoo_service \<Rightarrow> string \<Rightarrow> string \<Rightarrow> obj \<Rightarrow> json \<times> odoo_service" where
  "searchByName e s model query options =
     (let domain = name_domain query
      in searchRead e s model domain (AList.update ''domain'' (JArr domain) options))"

text \<open>The parameter \<open>options\<close> is optional and defaults to \<open>{ fields: [] }\<close>.\<close>

definition getAll :: "env \<Rightarrow> odoo_service \<Rightarrow> string \<Rightarrow> obj option \<Rightarrow> json \<times> odoo_service" where
  "getAll e s model options =
     (let opts = (case options of None \<Rightarrow> [(''fields'', JArr [])] | Some given \<Rightarrow> given);
          searchOptions = AList.update ''limit'' (or_else (map_of opts ''limit'') (JNum 100)) opts
      in searchRead e s model [] searchOptions)"

definition invalidateAuth :: "odoo_service \<Rightarrow> odoo_service" where
  "invalidateAuth s = s\<lparr>uid := JNull\<rparr>"

text \<open>
  Calls in flight. A call of \<open>execute\<close> is suspended at \<open>await fetch(...)\<close>: its request is
  sent and the answer has not arrived. \<open>execute_issue\<close> is \<open>execute\<close> up to that point:
  the request it leaves outstanding, or none when there is no session. A call that has
  to log in first is taken with its login answered.
\<close>

definition execute_issue ::
  "env \<Rightarrow> odoo_service \<Rightarrow> string \<Rightarrow> string \<Rightarrow> json list \<Rightarrow> obj \<Rightarrow> request option \<times> odoo_service" where
  "execute_issue e s model meth as kwargs =
     (let (u, s1) = authenticate e s
      in if \<not> truthy u then (None, s1)
         else
           let b = requestBody (prefs s1) u model meth as kwargs (next_id e s1)
           in (Some (post (prefs s1) b), send b s1))"

text \<open>
  A client: the service and the requests of its calls of \<open>execute\<close> that are outstanding.
  \<open>start_execute\<close> starts a call; \<open>finish_execute\<close> is the arrival of the answer to an
  outstanding request, which the suspended call turns into its result.
\<close>

record client =
  svc :: odoo_service
  outstanding :: "request list"

definition start_execute ::
  "env \<Rightarrow> client \<Rightarrow> string \<Rightarrow> string \<Rightarrow> json list \<Rightarrow> obj \<Rightarrow> client" where
  "start_execute e c model meth as kwargs =
     (case execute_issue e (svc c) model meth as kwargs of
        (None, s1) \<Rightarrow> c\<lparr>svc := s1\<rparr>
      | (Some r, s2) \<Rightarrow> c\<lparr>svc := s2, outstanding := outstanding c @ [r]\<rparr>)"

definition finish_execute :: "request \<Rightarrow> fetch_outcome \<Rightarrow> client \<Rightarrow> (thrown + json) \<times> client" where
  "finish_execute r answer c = (rpc_reply answer, c\<lparr>outstanding := remove1 r (outstanding c)\<rparr>)"

text \<open>Login requests among the requests sent.\<close>

definition is_login :: "request \<Rightarrow> bool" where
  "is_login r = (service (params (body r)) = ''common'' \<and> call_method (params (body r)) = ''login'')"

definition logins :: "request list \<Rightarrow> nat" where
  "logins rs = length (filter is_login rs)"

definition is_execute_kw :: "request \<Rightarrow> bool" where
  "is_execute_kw r =
     (service (params (body r)) = ''object'' \<and> call_method (params (body r)) = ''execute_kw'')"

section \<open>The search view\<close>

text \<open>
  What the view asks of the service. The view of \<open>search-projects.tsx\<close> calls
  \<open>searchByName\<close> and \<open>getAll\<close>; the earlier variant of the view builds its
  \<open>search_read\<close> request itself.
\<close>

datatype service_call =
    SearchByName string string obj
  | GetAll string obj
  | InlineSearch string

definition project_fields :: json where
  "project_fields =
     JArr (map JStr [''id'', ''name'', ''display_name'', ''description'', ''user_id'',
                     ''partner_id'', ''stage_id'', ''task_count'', ''active'', ''company_id'',
                     ''date_start'', ''date''])"

text \<open>The service calls made by \<open>searchProjects(query)\<close>: none when the trimmed query is empty.\<close>

definition searchProjects :: "string \<Rightarrow> service_call list" where
  "searchProjects query =
     (if trim query = [] then []
      else [SearchByName ''project.project'' query [(''fields'', project_fields)]])"

definition getAllProjects :: "service_call list" where
  "getAllProjects = [GetAll ''project.project'' [(''fields'', project_fields), (''limit'', JNum 100)]]"

text \<open>The callback given to \<open>setTimeout\<close>, on the search text its closure holds.\<close>

definition on_timeout :: "string \<Rightarrow> service_call list" where
  "on_timeout txt =
     (if 2 \<le> length txt then searchProjects txt
      else if length txt = 0 then getAllProjects
      else [])"

text \<open>The earlier variant: no listing; below two characters the results are only cleared.\<close>

definition searchProjects_legacy :: "string \<Rightarrow> service_call list" where
  "searchProjects_legacy query = (if trim query = [] then [] else [InlineSearch query])"

definition on_timeout_legacy :: "string \<Rightarrow> service_call list" where
  "on_timeout_legacy txt = (if 2 \<le> length txt then searchProjects_legacy txt else [])"

text \<open>
  The view: its search text, the pending timer of the debounce effect (when it is due and
  the text its callback holds), the time, and the service calls made so far.
\<close>

record view =
  searchText :: string
  timer :: "(nat \<times> string) option"
  clock :: nat
  calls :: "service_call list"

text \<open>
  Mounting runs both effects in order: the listing, then the debounce effect, which
  starts a timer of 300 on the empty text.
\<close>

definition mount :: view where
  "mount = \<lparr>searchText = [], timer = Some (300, []), clock = 0, calls = getAllProjects\<rparr>"

text \<open>
  \<open>setSearchText\<close> with the text the state already holds renders nothing. With another
  text the effect runs again: its cleanup clears the pending timer and a new timer starts.
\<close>

definition setSearchText :: "string \<Rightarrow> view \<Rightarrow> view" where
  "setSearchText t v =
     (if t = searchText v then v
      else v\<lparr>searchText := t, timer := Some (clock v + 300, t)\<rparr>)"

text \<open>Time passes; a timer that is due fires.\<close>

definition elapse :: "nat \<Rightarrow> view \<Rightarrow> view" where
  "elapse d v =
     (case timer v of
        None \<Rightarrow> v\<lparr>clock := clock v + d\<rparr>
      | Some (due, txt) \<Rightarrow>
          if due \<le> clock v + d
          then v\<lparr>clock := clock v + d, timer := None, calls := calls v @ on_timeout txt\<rparr>
          else v\<lparr>clock := clock v + d\<rparr>)"

datatype event = Type string | Wait nat

fun run :: "event list \<Rightarrow> view \<Rightarrow> view" where
  "run [] v = v"
| "run (Type t # evs) v = run evs (setSearchText t v)"
| "run (Wait d # evs) v = run evs (elapse d v)"

text \<open>Keystrokes, each after a delay since the event before it.\<close>

definition keystrokes :: "(nat \<times> string) list \<Rightarrow> event list" where
  "keystrokes ks = concat (map (\<lambda>(d, t). [Wait d, Type t]) ks)"

text \<open>Every text of the list differs from the text before it.\<close>

fun changes :: "string \<Rightarrow> string list \<Rightarrow> bool" where
  "changes cur [] = True"
| "changes cur (t # ts) = (t \<noteq> cur \<and> changes t ts)"

section \<open>A concrete deployment\<close>

definition acme :: preferences where
  "acme = \<lparr>odooUrl = ''https://example.odoo.com'', apiKey = ''k'', database = ''acme'',
           userLogin = ''api''\<rparr>"

definition reply_200 :: "odoo_response \<Rightarrow> fetch_outcome" where
  "reply_200 d = Resolved \<lparr>status = 200, json_body = Decoded d\<rparr>"

text \<open>A transport that answers every request with the session 7, and a constant random source.\<close>

definition acme_env :: env where
  "acme_env = \<lparr>math_random = (\<lambda>k. 1 / 2),
               fetch = (\<lambda>log. reply_200 \<lparr>result = Some (JNum 7), error = None\<rparr>)\<rparr>"

definition logged_in :: odoo_service where
  "logged_in = (new_OdooService acme)\<lparr>uid := JNum 7\<rparr>"

text \<open>The same transport with a random source whose first two draws differ.\<close>

definition two_draws_env :: env where
  "two_draws_env = \<lparr>math_random = (\<lambda>k. if k = 0 then 1 / 2 else 14623187990072 / 2 ^ 52),
                    fetch = (\<lambda>log. reply_200 \<lparr>result = Some (JNum 7), error = None\<rparr>)\<rparr>"

text \<open>A client with a session and no call in flight.\<close>

definition idle_client :: client where
  "idle_client = \<lparr>svc = logged_in, outstanding = []\<rparr>"

text \<open>A transport that answers the login with an error envelope.\<close>

definition bad_login_env :: env where
  "bad_login_env = \<lparr>math_random = (\<lambda>k. 1 / 2),
      fetch = (\<lambda>log. reply_200 \<lparr>result = None,
                 error = Some \<lparr>message = ''Invalid credentials'', data = None\<rparr>\<rparr>)\<rparr>"

text \<open>A transport that answers every request with the status 500.\<close>

definition http_500_env :: env where
  "http_500_env = \<lparr>math_random = (\<lambda>k. 1 / 2),
      fetch = (\<lambda>log. Resolved \<lparr>status = 500, json_body = Unparsable (Error ''Unexpected token'')\<rparr>)\<rparr>"

text \<open>Answers with an error whose detail message is empty, with the result \<open>false\<close>, and
  with an error that has a detail message.\<close>

definition blank_detail_env :: env where
  "blank_detail_env = \<lparr>math_random = (\<lambda>k. 1 / 2),
      fetch = (\<lambda>log. reply_200 \<lparr>result = None,
                 error = Some \<lparr>message = ''Odoo Server Error'',
                               data = Some \<lparr>data_name = ''builtins.ValueError'', data_message = []\<rparr>\<rparr>\<rparr>)\<rparr>"

definition false_result_env :: env where
  "false_result_env = \<lparr>math_random = (\<lambda>k. 1 / 2),
      fetch = (\<lambda>log. reply_200 \<lparr>result = Some (JBool False), error = None\<rparr>)\<rparr>"

definition access_denied :: odoo_response where
  "access_denied = \<lparr>result = None,
      error = Some \<lparr>message = ''Odoo Server Error'',
                    data = Some \<lparr>data_name = ''odoo.exceptions.AccessDenied'',
                                 data_message = ''Access Denied''\<rparr>\<rparr>\<rparr>"

definition name_fields :: json where
  "name_fields = JArr [JStr ''id'', JStr ''name'', JStr ''display_name'']"

text \<open>A pending timer holds the current search text; a timer just started is due in 300.\<close>

definition timer_current :: "view \<Rightarrow> bool" where
  "timer_current v = (case timer v of None \<Rightarrow> True | Some (due, txt) \<Rightarrow> txt = searchText v)"

definition armed :: "view \<Rightarrow> bool" where
  "armed v = (timer v = Some (clock v + 300, searchText v))"

section \<open>Effects of the building blocks\<close>

lemma correlation_id_half: "correlation_id (1 / 2) = 500000"
  by code_simp

lemma correlation_id_rounded_up: "correlation_id (14623187990072 / 2 ^ 52) = 3247"
  by code_simp

lemma correlation_id_largest: "correlation_id (1 - 1 / 2 ^ 53) = 999999"
  by code_simp

lemma uid_send [simp]: "uid (send b s) = uid s"
  by (simp add: send_def)

lemma prefs_send [simp]: "prefs (send b s) = prefs s"
  by (simp add: send_def)

lemma sent_send [simp]: "sent (send b s) = sent s @ [post (prefs s) b]"
  by (simp add: send_def)

lemma draws_send [simp]: "draws (send b s) = Suc (draws s)"
  by (simp add: send_def)

lemma toasts_send [simp]: "toasts (send b s) = toasts s"
  by (simp add: send_def)

lemma showToast_fields [simp]:
  "uid (showToast t m s) = uid s"
  "prefs (showToast t m s) = prefs s"
  "sent (showToast t m s) = sent s"
  "draws (showToast t m s) = draws s"
  "toasts (showToast t m s) = toasts s @ [\<lparr>style = Failure, title = t, toast_message = m\<rparr>]"
  by (simp_all add: showToast_def)

lemma is_login_authBody [simp]: "is_login (post p (authBody q n))"
  by (simp add: is_login_def post_def authBody_def)

lemma not_login_requestBody [simp]: "\<not> is_login (post p (requestBody q u model meth as kw n))"
  by (simp add: is_login_def post_def requestBody_def)

lemma authenticate_cached: "truthy (uid s) \<Longrightarrow> authenticate e s = (uid s, s)"
  by (simp add: authenticate_def)

lemma authenticate_uncached:
  "\<not> truthy (uid s) \<Longrightarrow>
   authenticate e s =
     (case rpc_reply (fetch e (sent s @ [post (prefs s) (authBody (prefs s) (next_id e s))])) of
        Inr r \<Rightarrow> (r, send (authBody (prefs s) (next_id e s)) s\<lparr>uid := r\<rparr>)
      | Inl err \<Rightarrow> (JNull, showToast ''Authentication Error''
                          (message_or err ''Failed to authenticate with Odoo'')
                          (send (authBody (prefs s) (next_id e s)) s)))"
  by (simp add: authenticate_def Let_def)

lemma execute_cached:
  "truthy (uid s) \<Longrightarrow>
   execute e s model meth as kw =
     (rpc_reply (fetch e (sent s @ [post (prefs s) (requestBody (prefs s) (uid s) model meth as kw (next_id e s))])),
      send (requestBody (prefs s) (uid s) model meth as kw (next_id e s)) s)"
  by (simp add: execute_def authenticate_cached Let_def)

lemma authenticate_logins:
  "logins (sent (snd (authenticate e s))) =
     (if truthy (uid s) then logins (sent s) else Suc (logins (sent s)))"
  by (simp add: authenticate_cached authenticate_uncached logins_def split: sum.split)

lemma execute_logins:
  "logins (sent (snd (execute e s model meth as kw))) = logins (sent (snd (authenticate e s)))"
  by (simp add: execute_def Let_def logins_def split: prod.split)

lemma execute_uid_cached:
  "truthy (uid s) \<Longrightarrow> uid (snd (execute e s model meth as kw)) = uid s"
  by (simp add: execute_cached)

lemma first_execute_logs_in:
  "uid (snd (execute acme_env (new_OdooService acme) model meth as kw)) = JNum 7
   \<and> logins (sent (snd (execute acme_env (new_OdooService acme) model meth as kw))) = 1"
proof -
  have n: "\<not> truthy (uid (new_OdooService acme))"
    by (simp add: new_OdooService_def)
  have r: "rpc_reply (fetch acme_env log) = Inr (JNum 7)" for log
    by (simp add: acme_env_def reply_200_def ok_def or_else_def)
  have a: "authenticate acme_env (new_OdooService acme)
           = (JNum 7, send (authBody (prefs (new_OdooService acme)) (next_id acme_env (new_OdooService acme)))
                         (new_OdooService acme)\<lparr>uid := JNum 7\<rparr>)"
    by (simp add: authenticate_uncached [OF n] r)
  have z: "logins (sent (new_OdooService acme)) = 0"
    by (simp add: new_OdooService_def logins_def)
  have l: "logins (sent (snd (execute acme_env (new_OdooService acme) model meth as kw))) = 1"
    using n z by (simp add: execute_logins authenticate_logins)
  have u: "uid (snd (execute acme_env (new_OdooService acme) model meth as kw)) = JNum 7"
    by (simp add: execute_def a Let_def)
  show ?thesis
    using l u by simp
qed

section \<open>Session reuse\<close>

text \<open>
  C1. On a service whose session cache is populated, \<open>authenticate\<close> returns the cached
  session without a request, two consecutive calls of \<open>execute\<close> add no login request to
  the requests sent, and after \<open>invalidateAuth\<close> the next \<open>execute\<close> adds exactly one.
\<close>

theorem session_reuse:
  assumes "truthy (uid s)"
  shows "let s1 = snd (execute e s m1 f1 a1 k1);
             s2 = snd (execute e s1 m2 f2 a2 k2);
             s3 = snd (execute e (invalidateAuth s2) m3 f3 a3 k3)
         in authenticate e s = (uid s, s)
          \<and> logins (sent s1) = logins (sent s)
          \<and> logins (sent s2) = logins (sent s)
          \<and> logins (sent s3) = Suc (logins (sent s))"
proof -
  have u1: "truthy (uid (snd (execute e s m1 f1 a1 k1)))"
    using assms by (simp add: execute_uid_cached)
  have l1: "logins (sent (snd (execute e s m1 f1 a1 k1))) = logins (sent s)"
    using assms by (simp add: execute_logins authenticate_logins)
  have l2: "logins (sent (snd (execute e (snd (execute e s m1 f1 a1 k1)) m2 f2 a2 k2)))
            = logins (sent s)"
    using u1 l1 by (simp add: execute_logins authenticate_logins)
  have l3: "logins (sent (snd (execute e (invalidateAuth
              (snd (execute e (snd (execute e s m1 f1 a1 k1)) m2 f2 a2 k2))) m3 f3 a3 k3)))
            = Suc (logins (sent s))"
    using l2 by (simp add: execute_logins authenticate_logins invalidateAuth_def)
  show ?thesis
    using assms l1 l2 l3 by (simp add: Let_def authenticate_cached)
qed

theorem session_reuse_witness:
  "(let s0 = snd (execute acme_env (new_OdooService acme) ''project.project'' ''search_read'' [JArr []] []);
        s1 = snd (execute acme_env s0 ''project.project'' ''search_read'' [JArr []] []);
        s2 = snd (execute acme_env s1 ''helpdesk.team'' ''search_read'' [JArr []] []);
        s3 = snd (execute acme_env (invalidateAuth s2) ''project.project'' ''search_read'' [JArr []] [])
    in truthy (uid s0) \<and> logins (sent s0) = 1 \<and> logins (sent s1) = 1 \<and> logins (sent s2) = 1
       \<and> logins (sent s3) = 2)"
proof -
  let ?s0 = "snd (execute acme_env (new_OdooService acme) ''project.project'' ''search_read'' [JArr []] [])"
  have h: "truthy (uid ?s0)" and z: "logins (sent ?s0) = 1"
    by (simp_all add: first_execute_logs_in)
  show ?thesis
    using h z session_reuse [OF h, of acme_env "''project.project''" "''search_read''" "[JArr []]" "[]"
        "''helpdesk.team''" "''search_read''" "[JArr []]" "[]"
        "''project.project''" "''search_read''" "[JArr []]" "[]"]
    by (simp add: Let_def)
qed

section \<open>A failed login\<close>

lemma rpc_reply_fails_iff:
  "(\<exists>err. rpc_reply out = Inl err) \<longleftrightarrow>
     (case out of
        Rejected x \<Rightarrow> True
      | Resolved r \<Rightarrow> \<not> ok r \<or> (case json_body r of Unparsable x \<Rightarrow> True | Decoded d \<Rightarrow> error d \<noteq> None))"
  by (auto split: fetch_outcome.splits decoded.splits option.splits)

text \<open>
  C5. When the session cache is unset and the login call fails (the statements after
  \<open>fetch\<close> throw: rejected fetch, status that is not a success, body that cannot be
  decoded, or an envelope with an \<open>error\<close> field), \<open>authenticate\<close> yields \<open>null\<close>, the
  cache stays as it was, and \<open>execute\<close> returns \<open>null\<close> having sent the login request
  only: no \<open>execute_kw\<close> request is added. The failure is shown as a toast, and the
  next \<open>execute\<close> sends a login request again.
\<close>

theorem failed_login_short_circuit:
  assumes "\<not> truthy (uid s)"
    and "rpc_reply (fetch e (sent s @ [post (prefs s) (authBody (prefs s) (next_id e s))])) = Inl err"
  shows "fst (authenticate e s) = JNull
       \<and> uid (snd (authenticate e s)) = uid s
       \<and> fst (execute e s model meth as kw) = Inr JNull
       \<and> uid (snd (execute e s model meth as kw)) = uid s
       \<and> sent (snd (execute e s model meth as kw))
           = sent s @ [post (prefs s) (authBody (prefs s) (next_id e s))]
       \<and> filter is_execute_kw (sent (snd (execute e s model meth as kw)))
           = filter is_execute_kw (sent s)
       \<and> toasts (snd (execute e s model meth as kw))
           = toasts s @ [\<lparr>style = Failure, title = ''Authentication Error'',
                           toast_message = message_or err ''Failed to authenticate with Odoo''\<rparr>]
       \<and> logins (sent (snd (execute e (snd (execute e s model meth as kw)) m2 f2 a2 k2)))
           = Suc (logins (sent (snd (execute e s model meth as kw))))"
proof -
  have a: "authenticate e s =
      (JNull, showToast ''Authentication Error'' (message_or err ''Failed to authenticate with Odoo'')
                (send (authBody (prefs s) (next_id e s)) s))"
    using assms by (simp add: authenticate_uncached)
  have x: "execute e s model meth as kw =
      (Inr JNull, showToast ''Authentication Error'' (message_or err ''Failed to authenticate with Odoo'')
                (send (authBody (prefs s) (next_id e s)) s))"
    by (simp add: execute_def a)
  have n: "\<not> is_execute_kw (post (prefs s) (authBody (prefs s) (next_id e s)))"
    by (simp add: is_execute_kw_def post_def authBody_def)
  have u: "\<not> truthy (uid (snd (execute e s model meth as kw)))"
    using assms(1) by (simp add: x)
  have again: "logins (sent (snd (execute e (snd (execute e s model meth as kw)) m2 f2 a2 k2)))
           = Suc (logins (sent (snd (execute e s model meth as kw))))"
    using u by (simp only: execute_logins authenticate_logins if_False)
  show ?thesis
    using again by (simp add: a x n)
qed

theorem failed_login_short_circuit_witness:
  "\<not> truthy (uid (new_OdooService acme))
   \<and> fst (authenticate bad_login_env (new_OdooService acme)) = JNull
   \<and> fst (execute bad_login_env (new_OdooService acme) ''project.project'' ''search_read'' [JArr []] [])
       = Inr JNull
   \<and> uid (snd (execute bad_login_env (new_OdooService acme) ''project.project'' ''search_read'' [JArr []] []))
       = JNull
   \<and> sent (snd (execute bad_login_env (new_OdooService acme) ''project.project'' ''search_read'' [JArr []] []))
       = [post acme (authBody acme 500000)]
   \<and> toasts (snd (execute bad_login_env (new_OdooService acme) ''project.project'' ''search_read'' [JArr []] []))
       = [\<lparr>style = Failure, title = ''Authentication Error'', toast_message = ''Invalid credentials''\<rparr>]"
proof -
  have h1: "\<not> truthy (uid (new_OdooService acme))"
    by (simp add: new_OdooService_def)
  have h2: "rpc_reply (fetch bad_login_env (sent (new_OdooService acme) @
               [post (prefs (new_OdooService acme))
                  (authBody (prefs (new_OdooService acme)) (next_id bad_login_env (new_OdooService acme)))]))
            = Inl (Error ''Invalid credentials'')"
    by (simp add: bad_login_env_def reply_200_def ok_def error_text_def)
  have i: "next_id bad_login_env (new_OdooService acme) = 500000"
    by (simp add: next_id_def bad_login_env_def correlation_id_half)
  have f: "prefs (new_OdooService acme) = acme" "sent (new_OdooService acme) = []"
    "toasts (new_OdooService acme) = []" "uid (new_OdooService acme) = JNull"
    by (simp_all add: new_OdooService_def)
  show ?thesis
    using h1 failed_login_short_circuit [OF h1 h2, of "''project.project''" "''search_read''" "[JArr []]" "[]"]
    by (simp add: i f)
qed

section \<open>Degradation at the query helpers\<close>

lemma rpc_reply_not_ok:
  "\<not> ok r \<Longrightarrow> rpc_reply (Resolved r) = Inl (Error (''HTTP error! status: '' @ string_of_nat (status r)))"
  by simp

lemma searchRead_sent_cached:
  "truthy (uid s) \<Longrightarrow>
   sent (snd (searchRead e s model dmn opts))
     = sent s @ [post (prefs s) (requestBody (prefs s) (uid s) model ''search_read'' [JArr dmn] opts (next_id e s))]"
  by (simp add: searchRead_def execute_cached split: sum.split)

lemma searchRead_cached_Inl:
  assumes "truthy (uid s)"
    and "rpc_reply (fetch e (sent s @ [post (prefs s)
            (requestBody (prefs s) (uid s) model ''search_read'' [JArr dmn] opts (next_id e s))])) = Inl err"
  shows "fst (searchRead e s model dmn opts) = JArr []"
    and "toasts (snd (searchRead e s model dmn opts))
          = toasts s @ [\<lparr>style = Failure, title = ''Search Error'',
                          toast_message = message_or err (''Failed to search '' @ model)\<rparr>]"
  using assms by (simp_all add: searchRead_def execute_cached)

lemma searchRead_uid:
  "truthy (uid s) \<Longrightarrow> uid (snd (searchRead e s model dmn opts)) = uid s"
  by (simp add: searchRead_def execute_cached split: sum.split)

lemma searchRead_login_Inl:
  assumes "\<not> truthy (uid s)"
    and "rpc_reply (fetch e (sent s @ [post (prefs s) (authBody (prefs s) (next_id e s))])) = Inl err"
  shows "fst (searchRead e s model dmn opts) = JArr []"
    and "sent (snd (searchRead e s model dmn opts))
          = sent s @ [post (prefs s) (authBody (prefs s) (next_id e s))]"
    and "toasts (snd (searchRead e s model dmn opts))
          = toasts s @ [\<lparr>style = Failure, title = ''Authentication Error'',
                          toast_message = message_or err ''Failed to authenticate with Odoo''\<rparr>]"
  using assms by (simp_all add: searchRead_def execute_def authenticate_uncached or_else_def)

lemma searchRead_login_Inr:
  assumes "\<not> truthy (uid s)"
    and "rpc_reply (fetch e (sent s @ [post (prefs s) (authBody (prefs s) (next_id e s))])) = Inr u"
  shows "searchRead e s model dmn opts
          = (if truthy u
             then searchRead e (send (authBody (prefs s) (next_id e s)) s\<lparr>uid := u\<rparr>) model dmn opts
             else (JArr [], send (authBody (prefs s) (next_id e s)) s\<lparr>uid := u\<rparr>))"
  using assms
  by (simp add: searchRead_def execute_def authenticate_uncached authenticate_cached or_else_def Let_def)

lemma searchRead_http_failure_cached:
  assumes "truthy (uid s)"
    and "fetch e (sent (snd (searchRead e s model dmn opts))) = Resolved r"
    and "\<not> ok r"
  shows "fst (searchRead e s model dmn opts) = JArr []
       \<and> toasts (snd (searchRead e s model dmn opts))
            = toasts s @ [\<lparr>style = Failure, title = ''Search Error'',
                     toast_message = ''HTTP error! status: '' @ string_of_nat (status r)\<rparr>]"
proof -
  have "rpc_reply (fetch e (sent s @ [post (prefs s)
            (requestBody (prefs s) (uid s) model ''search_read'' [JArr dmn] opts (next_id e s))]))
        = Inl (Error (''HTTP error! status: '' @ string_of_nat (status r)))"
    using assms by (simp add: searchRead_sent_cached)
  from searchRead_cached_Inl [OF assms(1) this] show ?thesis
    by simp
qed

lemma searchRead_http_failure:
  assumes "fetch e (sent (snd (searchRead e s model dmn opts))) = Resolved r"
    and "\<not> ok r"
  shows "fst (searchRead e s model dmn opts) = JArr []
       \<and> (\<exists>t. (t = ''Authentication Error'' \<or> t = ''Search Error'')
              \<and> toasts (snd (searchRead e s model dmn opts))
                  = toasts s @ [\<lparr>style = Failure, title = t,
                     toast_message = ''HTTP error! status: '' @ string_of_nat (status r)\<rparr>])"
proof (cases "truthy (uid s)")
  case True
  from searchRead_http_failure_cached [OF True assms] show ?thesis
    by simp
next
  case False
  let ?s1 = "send (authBody (prefs s) (next_id e s)) s"
  show ?thesis
  proof (cases "rpc_reply (fetch e (sent s @ [post (prefs s) (authBody (prefs s) (next_id e s))]))")
    case (Inl err)
    note facts = searchRead_login_Inl [OF False Inl, of model dmn opts]
    have "err = Error (''HTTP error! status: '' @ string_of_nat (status r))"
      using assms Inl by (simp add: facts(2))
    then show ?thesis
      by (simp add: facts)
  next
    case (Inr u)
    note step = searchRead_login_Inr [OF False Inr, of model dmn opts]
    show ?thesis
    proof (cases "truthy u")
      case True
      have c: "truthy (uid (?s1\<lparr>uid := u\<rparr>))"
        using True by simp
      have "fetch e (sent (snd (searchRead e (?s1\<lparr>uid := u\<rparr>) model dmn opts))) = Resolved r"
        using assms(1) True by (simp add: step)
      from searchRead_http_failure_cached [OF c this assms(2)] show ?thesis
        using True by (simp add: step)
    next
      case False
      have "fetch e (sent s @ [post (prefs s) (authBody (prefs s) (next_id e s))]) = Resolved r"
        using assms(1) False by (simp add: step)
      then have "rpc_reply (fetch e (sent s @ [post (prefs s) (authBody (prefs s) (next_id e s))]))
                 = Inl (Error (''HTTP error! status: '' @ string_of_nat (status r)))"
        using assms(2) by simp
      then show ?thesis
        using Inr by simp
    qed
  qed
qed

text \<open>
  C4. When the HTTP response that ends a call of \<open>searchByName\<close> (the answer to the last
  request the call sent, the login or the \<open>execute_kw\<close> call) has a status that is not a
  success, the call returns the empty sequence and has shown one failure toast, whose
  message carries the status.
\<close>

theorem searchByName_http_failure:
  assumes "searchByName e s model query options = (res, s')"
    and "fetch e (sent s') = Resolved r"
    and "\<not> ok r"
  shows "res = JArr []
       \<and> (\<exists>t. (t = ''Authentication Error'' \<or> t = ''Search Error'')
              \<and> toasts s' = toasts s @ [\<lparr>style = Failure, title = t,
                     toast_message = ''HTTP error! status: '' @ string_of_nat (status r)\<rparr>])"
proof -
  let ?opts = "AList.update ''domain'' (JArr (name_domain query)) options"
  have eq: "searchRead e s model (name_domain query) ?opts = (res, s')"
    using assms(1) by (simp add: searchByName_def Let_def)
  have "fetch e (sent (snd (searchRead e s model (name_domain query) ?opts))) = Resolved r"
    using assms(2) by (simp add: eq)
  from searchRead_http_failure [OF this assms(3)] show ?thesis
    by (simp add: eq)
qed

lemma string_of_nat_500: "string_of_nat 500 = ''500''"
  by (simp add: string_of_nat.simps)

theorem searchByName_http_failure_witness:
  "fetch http_500_env
      (sent (snd (searchByName http_500_env logged_in ''project.project'' ''web'' [(''fields'', JArr [JStr ''id''])])))
     = Resolved \<lparr>status = 500, json_body = Unparsable (Error ''Unexpected token'')\<rparr>
   \<and> \<not> ok \<lparr>status = 500, json_body = Unparsable (Error ''Unexpected token'')\<rparr>
   \<and> fst (searchByName http_500_env logged_in ''project.project'' ''web'' [(''fields'', JArr [JStr ''id''])])
       = JArr []
   \<and> (\<exists>t. toasts (snd (searchByName http_500_env logged_in ''project.project'' ''web''
                         [(''fields'', JArr [JStr ''id''])]))
            = [\<lparr>style = Failure, title = t, toast_message = ''HTTP error! status: 500''\<rparr>])"
proof -
  let ?call = "searchByName http_500_env logged_in ''project.project'' ''web'' [(''fields'', JArr [JStr ''id''])]"
  let ?r = "\<lparr>status = 500, json_body = Unparsable (Error ''Unexpected token'')\<rparr>"
  have h1: "?call = (fst ?call, snd ?call)"
    by simp
  have h2: "fetch http_500_env (sent (snd ?call)) = Resolved ?r"
    by (simp add: http_500_env_def)
  have h3: "\<not> ok ?r"
    by (simp add: ok_def)
  have t0: "toasts logged_in = []"
    by (simp add: logged_in_def new_OdooService_def)
  show ?thesis
    using h2 h3 searchByName_http_failure [OF h1 h2 h3]
    by (auto simp add: string_of_nat_500 t0)
qed

section \<open>What the transport's answer becomes\<close>

text \<open>
  C8, as the claim states it, fails at two answers with a successful status. An error
  whose detail message is present but empty is thrown with the top-level message, not
  with the detail's; and a result \<open>false\<close> with no error field is returned as \<open>null\<close>,
  not as the result field.
\<close>

theorem transport_discrimination_counterexample:
  "fst (execute blank_detail_env logged_in ''project.project'' ''search_read'' [JArr []] [])
     = Inl (Error ''Odoo Server Error'')
   \<and> fst (execute blank_detail_env logged_in ''project.project'' ''search_read'' [JArr []] [])
     \<noteq> Inl (Error [])
   \<and> fst (execute false_result_env logged_in ''project.project'' ''check_access_rights''
            [JStr ''write'', JBool False] [])
     = Inr JNull
   \<and> fst (execute false_result_env logged_in ''project.project'' ''check_access_rights''
            [JStr ''write'', JBool False] [])
     \<noteq> Inr (JBool False)"
proof -
  have c: "truthy (uid logged_in)"
    by (simp add: logged_in_def)
  show ?thesis
    by (simp add: execute_cached [OF c] blank_detail_env_def false_result_env_def reply_200_def
        ok_def error_text_def or_else_def)
qed

text \<open>
  C8, amended. The value of \<open>execute\<close> on a populated cache, and of \<open>authenticate\<close> on an
  unset one, is decided by the answer to the one request sent. A status that is not a
  success throws an error whose message carries the status, whatever the body is. With
  a successful status and an \<open>error\<close> field, the error thrown carries the detail message
  \<open>error.data.message\<close> when that is present and not empty, and the top-level
  \<open>error.message\<close> otherwise. With no \<open>error\<close> field the result field is returned when it
  is truthy, and \<open>null\<close> otherwise. What \<open>authenticate\<close> catches it shows as a toast.
\<close>

theorem transport_discrimination:
  "(truthy (uid s) \<longrightarrow>
      fst (execute e s model meth as kw)
        = rpc_reply (fetch e (sent s @ [post (prefs s)
            (requestBody (prefs s) (uid s) model meth as kw (next_id e s))])))
   \<and> (\<not> truthy (uid s) \<longrightarrow>
      authenticate e s
        = (case rpc_reply (fetch e (sent s @ [post (prefs s) (authBody (prefs s) (next_id e s))])) of
             Inr u \<Rightarrow> (u, send (authBody (prefs s) (next_id e s)) s\<lparr>uid := u\<rparr>)
           | Inl err \<Rightarrow> (JNull, showToast ''Authentication Error''
                               (message_or err ''Failed to authenticate with Odoo'')
                               (send (authBody (prefs s) (next_id e s)) s))))
   \<and> (\<not> ok r \<longrightarrow>
      (\<forall>b. rpc_reply (Resolved (r\<lparr>json_body := b\<rparr>))
            = Inl (Error (''HTTP error! status: '' @ string_of_nat (status r)))))
   \<and> (ok r \<and> json_body r = Decoded d \<and> error d = Some er \<and> data er = Some dt \<and> data_message dt \<noteq> [] \<longrightarrow>
      rpc_reply (Resolved r) = Inl (Error (data_message dt)))
   \<and> (ok r \<and> json_body r = Decoded d \<and> error d = Some er
        \<and> (data er = None \<or> (\<exists>dt. data er = Some dt \<and> data_message dt = [])) \<longrightarrow>
      rpc_reply (Resolved r) = Inl (Error (message er)))
   \<and> (ok r \<and> json_body r = Decoded d \<and> error d = None \<and> result d = Some v \<and> truthy v \<longrightarrow>
      rpc_reply (Resolved r) = Inr v)
   \<and> (ok r \<and> json_body r = Decoded d \<and> error d = None
        \<and> (result d = None \<or> (\<exists>v. result d = Some v \<and> \<not> truthy v)) \<longrightarrow>
      rpc_reply (Resolved r) = Inr JNull)"
proof (intro conjI impI)
  assume "truthy (uid s)"
  then show "fst (execute e s model meth as kw)
        = rpc_reply (fetch e (sent s @ [post (prefs s)
            (requestBody (prefs s) (uid s) model meth as kw (next_id e s))]))"
    by (simp add: execute_cached)
next
  assume "\<not> truthy (uid s)"
  then show "authenticate e s
        = (case rpc_reply (fetch e (sent s @ [post (prefs s) (authBody (prefs s) (next_id e s))])) of
             Inr u \<Rightarrow> (u, send (authBody (prefs s) (next_id e s)) s\<lparr>uid := u\<rparr>)
           | Inl err \<Rightarrow> (JNull, showToast ''Authentication Error''
                               (message_or err ''Failed to authenticate with Odoo'')
                               (send (authBody (prefs s) (next_id e s)) s)))"
    by (rule authenticate_uncached)
next
  assume "\<not> ok r"
  then show "\<forall>b. rpc_reply (Resolved (r\<lparr>json_body := b\<rparr>))
            = Inl (Error (''HTTP error! status: '' @ string_of_nat (status r)))"
    by (simp add: ok_def)
next
  assume "ok r \<and> json_body r = Decoded d \<and> error d = Some er \<and> data er = Some dt \<and> data_message dt \<noteq> []"
  then show "rpc_reply (Resolved r) = Inl (Error (data_message dt))"
    by (simp add: error_text_def)
next
  assume "ok r \<and> json_body r = Decoded d \<and> error d = Some er
        \<and> (data er = None \<or> (\<exists>dt. data er = Some dt \<and> data_message dt = []))"
  then show "rpc_reply (Resolved r) = Inl (Error (message er))"
    by (auto simp add: error_text_def)
next
  assume "ok r \<and> json_body r = Decoded d \<and> error d = None \<and> result d = Some v \<and> truthy v"
  then show "rpc_reply (Resolved r) = Inr v"
    by (simp add: or_else_def)
next
  assume "ok r \<and> json_body r = Decoded d \<and> error d = None
        \<and> (result d = None \<or> (\<exists>v. result d = Some v \<and> \<not> truthy v))"
  then show "rpc_reply (Resolved r) = Inr JNull"
    by (auto simp add: or_else_def)
qed

theorem transport_discrimination_witness:
  "truthy (uid logged_in)
   \<and> fst (execute http_500_env logged_in ''project.project'' ''search_read'' [JArr []] [])
       = Inl (Error ''HTTP error! status: 500'')
   \<and> \<not> truthy (uid (new_OdooService acme))
   \<and> fst (authenticate bad_login_env (new_OdooService acme)) = JNull
   \<and> rpc_reply (reply_200 access_denied) = Inl (Error ''Access Denied'')
   \<and> rpc_reply (reply_200 \<lparr>result = None,
          error = Some \<lparr>message = ''Invalid credentials'', data = None\<rparr>\<rparr>)
       = Inl (Error ''Invalid credentials'')
   \<and> rpc_reply (reply_200 \<lparr>result = Some (JNum 7), error = None\<rparr>) = Inr (JNum 7)
   \<and> rpc_reply (reply_200 \<lparr>result = Some (JBool False), error = None\<rparr>) = Inr JNull"
proof -
  let ?r500 = "\<lparr>status = 500, json_body = Unparsable (Error ''Unexpected token'')\<rparr>"
  have c: "truthy (uid logged_in)"
    by (simp add: logged_in_def)
  have n: "\<not> truthy (uid (new_OdooService acme))"
    by (simp add: new_OdooService_def)
  have w1: "fst (execute http_500_env logged_in ''project.project'' ''search_read'' [JArr []] [])
       = Inl (Error ''HTTP error! status: 500'')"
    using c transport_discrimination [where s = logged_in and e = http_500_env
        and model = "''project.project''" and meth = "''search_read''" and as = "[JArr []]"
        and kw = "[]" and r = ?r500]
    by (simp add: http_500_env_def ok_def string_of_nat_500)
  have w2: "fst (authenticate bad_login_env (new_OdooService acme)) = JNull"
    using n transport_discrimination [where s = "new_OdooService acme" and e = bad_login_env]
    by (simp add: bad_login_env_def reply_200_def ok_def)
  have w3: "rpc_reply (reply_200 access_denied) = Inl (Error ''Access Denied'')"
    using transport_discrimination [where r = "\<lparr>status = 200, json_body = Decoded access_denied\<rparr>"
        and d = access_denied
        and er = "\<lparr>message = ''Odoo Server Error'',
                    data = Some \<lparr>data_name = ''odoo.exceptions.AccessDenied'',
                                 data_message = ''Access Denied''\<rparr>\<rparr>"
        and dt = "\<lparr>data_name = ''odoo.exceptions.AccessDenied'', data_message = ''Access Denied''\<rparr>"]
    by (simp add: reply_200_def access_denied_def ok_def)
  have w4: "rpc_reply (reply_200 \<lparr>result = None,
          error = Some \<lparr>message = ''Invalid credentials'', data = None\<rparr>\<rparr>)
       = Inl (Error ''Invalid credentials'')"
    using transport_discrimination [where r = "\<lparr>status = 200, json_body = Decoded \<lparr>result = None,
          error = Some \<lparr>message = ''Invalid credentials'', data = None\<rparr>\<rparr>\<rparr>"
        and d = "\<lparr>result = None, error = Some \<lparr>message = ''Invalid credentials'', data = None\<rparr>\<rparr>"
        and er = "\<lparr>message = ''Invalid credentials'', data = None\<rparr>"]
    by (simp add: reply_200_def ok_def)
  have w5: "rpc_reply (reply_200 \<lparr>result = Some (JNum 7), error = None\<rparr>) = Inr (JNum 7)"
    using transport_discrimination [where r = "\<lparr>status = 200,
          json_body = Decoded \<lparr>result = Some (JNum 7), error = None\<rparr>\<rparr>"
        and d = "\<lparr>result = Some (JNum 7), error = None\<rparr>" and v = "JNum 7"]
    by (simp add: reply_200_def ok_def)
  have w6: "rpc_reply (reply_200 \<lparr>result = Some (JBool False), error = None\<rparr>) = Inr JNull"
    using transport_discrimination [where r = "\<lparr>status = 200,
          json_body = Decoded \<lparr>result = Some (JBool False), error = None\<rparr>\<rparr>"
        and d = "\<lparr>result = Some (JBool False), error = None\<rparr>"]
    by (simp add: reply_200_def ok_def)
  show ?thesis
    using c n w1 w2 w3 w4 w5 w6 by simp
qed

section \<open>Correlation identifiers\<close>

lemma rpc_id_post_authBody [simp]: "rpc_id (body (post p (authBody q n))) = n"
  by (simp add: post_def authBody_def)

lemma rpc_id_post_requestBody [simp]: "rpc_id (body (post p (requestBody q u model meth as kw n))) = n"
  by (simp add: post_def requestBody_def)

lemma execute_requests:
  "\<exists>new. sent (snd (execute e s model meth as kw)) = sent s @ new
        \<and> draws (snd (execute e s model meth as kw)) = draws s + length new
        \<and> (\<forall>i<length new. rpc_id (body (new ! i)) = correlation_id (math_random e (draws s + i)))"
proof (cases "truthy (uid s)")
  case True
  then show ?thesis
    by (simp add: execute_cached next_id_def)
next
  case False
  show ?thesis
  proof (cases "rpc_reply (fetch e (sent s @ [post (prefs s) (authBody (prefs s) (next_id e s))]))")
    case (Inl err)
    then show ?thesis
      using False by (simp add: execute_def authenticate_uncached next_id_def)
  next
    case (Inr u)
    then show ?thesis
      using False
      by (cases "truthy u") (simp_all add: execute_def authenticate_uncached next_id_def Let_def
          less_Suc_eq nth_append)
  qed
qed

text \<open>
  Rounding to a double: a product of a double below 1 and one million stays below one
  million, so its floor is at most 999999.
\<close>

lemma round_half_even_bounds: "x - 1 / 2 \<le> of_int (round_half_even x) \<and> of_int (round_half_even x) \<le> x + 1 / 2"
  unfolding round_half_even_def Let_def by (auto; linarith)

lemma binary_exponent_ge1:
  assumes "1 \<le> x"
  shows "2 powi binary_exponent x \<le> x \<and> x < 2 powi (binary_exponent x + 1)"
proof -
  let ?n = "\<lfloor>x\<rfloor>"
  have n: "0 < ?n" using assms by simp
  have b1: "1 \<le> bitlen ?n" using n by (simp add: bitlen_alt_def)
  note bb = bitlen_bounds [OF n]
  have e: "binary_exponent x = bitlen ?n - 1" using assms by (simp add: binary_exponent_def)
  have "2 powi (bitlen ?n - 1) = (2::real) ^ nat (bitlen ?n - 1)"
    using b1 by (simp add: power_int_def)
  also have "\<dots> = of_int (2 ^ nat (bitlen ?n - 1))" by simp
  also have "\<dots> \<le> of_int ?n" using bb by (simp only: of_int_le_iff)
  also have "\<dots> \<le> x" by simp
  finally have lo: "2 powi (bitlen ?n - 1) \<le> x" .
  have "x < of_int (?n + 1)" by linarith
  also have "\<dots> \<le> of_int (2 ^ nat (bitlen ?n))" using bb by (simp only: of_int_le_iff) linarith
  also have "\<dots> = (2::real) ^ nat (bitlen ?n)" by simp
  also have "\<dots> = 2 powi (bitlen ?n)" using b1 by (simp add: power_int_def)
  finally have hi: "x < 2 powi (bitlen ?n)" .
  show ?thesis using lo hi by (simp add: e)
qed

lemma two_powi_nonneg: "0 \<le> k \<Longrightarrow> (2::real) powi k = 2 ^ nat k"
  by (simp add: power_int_def)

lemma two_powi_neg: "0 \<le> k \<Longrightarrow> (2::real) powi (- k) = inverse (2 ^ nat k)"
  by (simp only: power_int_minus two_powi_nonneg)

lemma binary_exponent_lt1:
  assumes "0 < x" "x < 1"
  shows "2 powi binary_exponent x \<le> x \<and> x < 2 powi (binary_exponent x + 1)"
proof -
  let ?q = "1 / x"
  let ?m = "\<lceil>?q\<rceil> - 1"
  have q: "1 < ?q" using assms by simp
  have m: "0 < ?m" using q by linarith
  have mq: "of_int ?m < ?q" "?q \<le> of_int ?m + 1" by linarith+
  have b1: "1 \<le> bitlen ?m" using m by (simp add: bitlen_alt_def)
  note bb = bitlen_bounds [OF m]
  have e: "binary_exponent x = - bitlen ?m" using assms by (simp add: binary_exponent_def)
  have "?q \<le> of_int (?m + 1)" using mq by simp
  also have "\<dots> \<le> of_int (2 ^ nat (bitlen ?m))" using bb by (simp only: of_int_le_iff) linarith
  also have "\<dots> = (2::real) ^ nat (bitlen ?m)" by simp
  finally have "1 / x \<le> 2 ^ nat (bitlen ?m)" .
  then have "1 \<le> 2 ^ nat (bitlen ?m) * x" using assms by (simp add: field_simps)
  then have "inverse (2 ^ nat (bitlen ?m)) \<le> x" by (simp add: field_simps)
  then have lo: "2 powi (- bitlen ?m) \<le> x" using b1 by (simp add: two_powi_neg)
  have "(2::real) ^ nat (bitlen ?m - 1) = of_int (2 ^ nat (bitlen ?m - 1))" by simp
  also have "\<dots> \<le> of_int ?m" using bb by (simp only: of_int_le_iff)
  also have "\<dots> < 1 / x" using mq by simp
  finally have "2 ^ nat (bitlen ?m - 1) < 1 / x" .
  then have "2 ^ nat (bitlen ?m - 1) * x < 1" using assms by (simp add: field_simps)
  then have "x < inverse (2 ^ nat (bitlen ?m - 1))" by (simp add: field_simps)
  moreover have "2 powi (- bitlen ?m + 1) = inverse ((2::real) ^ nat (bitlen ?m - 1))"
    using b1 two_powi_neg [of "bitlen ?m - 1"] by simp
  ultimately have hi: "x < 2 powi (- bitlen ?m + 1)" by simp
  show ?thesis using lo hi by (simp add: e)
qed

lemma binary_exponent_bounds:
  "0 < x \<Longrightarrow> 2 powi binary_exponent x \<le> x \<and> x < 2 powi (binary_exponent x + 1)"
  using binary_exponent_ge1 [of x] binary_exponent_lt1 [of x] by (cases "1 \<le> x") auto

lemma to_double_pos:
  "0 < x \<Longrightarrow>
   to_double x = of_int (round_half_even (x / 2 powi (max (binary_exponent x) (- 1022) - 52)))
                 * 2 powi (max (binary_exponent x) (- 1022) - 52)"
  by (simp add: to_double_def Let_def)

lemma to_double_nonneg: "0 \<le> to_double x"
proof (cases "0 < x")
  case False
  then show ?thesis by (simp add: to_double_def)
next
  case True
  let ?u = "(2::real) powi (max (binary_exponent x) (- 1022) - 52)"
  have u: "0 < ?u" by simp
  have "- 1 / 2 \<le> x / ?u - 1 / 2" using True u by simp
  also have "\<dots> \<le> of_int (round_half_even (x / ?u))" using round_half_even_bounds [of "x / ?u"] by simp
  finally have "- 1 < (of_int (round_half_even (x / ?u)) :: real)" by simp
  then have "0 \<le> round_half_even (x / ?u)" by linarith
  then show ?thesis using u by (simp add: to_double_pos [OF True])
qed

lemma binary_exponent_less:
  assumes "0 < x" "x < 2 powi n"
  shows "binary_exponent x < n"
proof (rule ccontr)
  assume "\<not> binary_exponent x < n"
  then have "(2::real) powi n \<le> 2 powi binary_exponent x"
    by (intro power_int_increasing) simp_all
  also have "\<dots> \<le> x" using binary_exponent_bounds [OF assms(1)] by simp
  finally show False using assms(2) by simp
qed

lemma to_double_below_million:
  assumes "0 \<le> p" "p \<le> 1000000 * (1 - 1 / 2 ^ 53)"
  shows "to_double p < 1000000"
proof (cases "0 < p")
  case False
  then show ?thesis by (simp add: to_double_def)
next
  case True
  let ?b = "binary_exponent p"
  let ?e = "max ?b (- 1022)"
  let ?u = "(2::real) powi (?e - 52)"
  let ?k = "round_half_even (p / ?u)"
  have u: "0 < ?u" by simp
  have td: "to_double p = of_int ?k * ?u" using True by (rule to_double_pos)
  have k_le: "of_int ?k \<le> p / ?u + 1 / 2" using round_half_even_bounds [of "p / ?u"] by simp
  have "p < 2 powi 20" using assms(2) by simp
  then have e20: "?b < 20" using True by (intro binary_exponent_less)
  show ?thesis
  proof (cases "?b = 19")
    case True
    then have e: "?e = 19" by simp
    have uv: "?u = 1 / 2 ^ 33" by (simp add: e)
    have "p / ?u = p * 2 ^ 33" by (simp add: uv)
    also have "\<dots> \<le> 1000000 * (1 - 1 / 2 ^ 53) * 2 ^ 33" using assms(2) by simp
    also have "\<dots> < 1000000 * 2 ^ 33 - 1 / 2" by simp
    finally have lt: "p / ?u < 1000000 * 2 ^ 33 - 1 / 2" .
    have "(1000000 * 2 ^ 33 - 1 / 2 :: real) = 8589934592000000 - 1 / 2" by simp
    then have "of_int ?k < (8589934592000000 :: real)" using k_le lt by linarith
    then have "?k < 8589934592000000" by linarith
    then have "(of_int ?k :: real) \<le> 1000000 * 2 ^ 33 - 1" by simp
    then have "of_int ?k * ?u \<le> (1000000 * 2 ^ 33 - 1) * ?u" using u by (intro mult_right_mono) simp_all
    also have "\<dots> < 1000000" by (simp add: uv)
    finally show ?thesis by (simp add: td)
  next
    case False
    then have e18: "?e \<le> 18" using e20 by simp
    have "p < 2 powi (?b + 1)" using binary_exponent_bounds [OF \<open>0 < p\<close>] by simp
    also have "\<dots> \<le> 2 powi (?e + 1)" by (intro power_int_increasing) simp_all
    finally have "p / ?u < 2 powi (?e + 1) / ?u" using u by (simp add: divide_strict_right_mono)
    also have "2 powi (?e + 1) / ?u = (2::real) powi ((?e + 1) - (?e - 52))"
      by (subst power_int_diff) simp_all
    also have "\<dots> = 2 ^ 53" by simp
    finally have lt: "p / ?u < 2 ^ 53" .
    have "(2 ^ 53 :: real) = 9007199254740992" by simp
    then have "of_int ?k < (9007199254740993 :: real)" using k_le lt by linarith
    then have "?k < 9007199254740993" by linarith
    then have "(of_int ?k :: real) \<le> 2 ^ 53" by simp
    then have "of_int ?k * ?u \<le> 2 ^ 53 * ?u" using u by (intro mult_right_mono) simp_all
    also have "\<dots> = 2 powi 53 * ?u" by simp
    also have "\<dots> = 2 powi (53 + (?e - 52))" by (subst power_int_add) simp_all
    also have "\<dots> \<le> 2 powi 19" using e18 by (intro power_int_increasing) simp_all
    also have "\<dots> < 1000000" by simp
    finally show ?thesis by (simp add: td)
  qed
qed

lemma double_below_one:
  assumes "is_double r" "0 \<le> r" "r < 1"
  shows "r \<le> 1 - 1 / 2 ^ 53"
proof (cases "0 < r")
  case False
  then show ?thesis using assms(2) by simp
next
  case True
  let ?b = "binary_exponent r"
  have "r < 2 powi 0" using assms(3) by simp
  then have e0: "?b < 0" using True by (intro binary_exponent_less)
  show ?thesis
  proof (cases "?b = - 1")
    case True
    let ?k = "round_half_even (r / 2 powi (- 53))"
    have "to_double r = of_int ?k * 2 powi (- 53)"
      using to_double_pos [OF \<open>0 < r\<close>] by (simp add: True)
    then have r: "r = of_int ?k / 2 ^ 53" using assms(1) by (simp add: is_double_def)
    then have "of_int ?k < (9007199254740992 :: real)" using assms(3) by (simp add: field_simps)
    then have "?k < 9007199254740992" by linarith
    then have "(of_int ?k :: real) \<le> 2 ^ 53 - 1" by simp
    then have "of_int ?k / 2 ^ 53 \<le> (2 ^ 53 - 1) / (2 ^ 53 :: real)" by (intro divide_right_mono) simp_all
    then show ?thesis by (subst r) (simp add: field_simps)
  next
    case False
    then have "?b + 1 \<le> - 1" using e0 by simp
    have "r < 2 powi (?b + 1)" using binary_exponent_bounds [OF True] by simp
    also have "\<dots> \<le> 2 powi (- 1)" using \<open>?b + 1 \<le> - 1\<close> by (intro power_int_increasing) simp_all
    also have "\<dots> \<le> 1 - 1 / 2 ^ 53" by simp
    finally show ?thesis by simp
  qed
qed

lemma correlation_id_range:
  assumes "is_double r" "0 \<le> r" "r < 1"
  shows "0 \<le> correlation_id r \<and> correlation_id r < 1000000"
proof -
  have "r * 1000000 \<le> 1000000 * (1 - 1 / 2 ^ 53)"
    using double_below_one [OF assms] by simp
  moreover have "0 \<le> r * 1000000" using assms(2) by simp
  ultimately have "to_double (r * 1000000) < 1000000"
    by (intro to_double_below_million)
  then show ?thesis
    using to_double_nonneg [of "r * 1000000"] by (simp add: correlation_id_def floor_less_iff)
qed

lemma is_double_half: "is_double (1 / 2)"
  unfolding is_double_def by code_simp

lemma execute_issue_cached:
  "truthy (uid s) \<Longrightarrow>
   execute_issue e s model meth as kw =
     (Some (post (prefs s) (requestBody (prefs s) (uid s) model meth as kw (next_id e s))),
      send (requestBody (prefs s) (uid s) model meth as kw (next_id e s)) s)"
  by (simp add: execute_issue_def authenticate_cached Let_def)

lemma execute_after_issue:
  "execute e s model meth as kw =
     (case execute_issue e s model meth as kw of
        (None, s1) \<Rightarrow> (Inr JNull, s1)
      | (Some r, s2) \<Rightarrow> (rpc_reply (fetch e (sent s2)), s2))"
  by (simp add: execute_def execute_issue_def Let_def split: prod.split)

lemma start_execute_cached:
  "truthy (uid (svc c)) \<Longrightarrow>
   start_execute e c model meth as kw =
     c\<lparr>svc := send (requestBody (prefs (svc c)) (uid (svc c)) model meth as kw (next_id e (svc c))) (svc c),
       outstanding := outstanding c @
         [post (prefs (svc c)) (requestBody (prefs (svc c)) (uid (svc c)) model meth as kw (next_id e (svc c)))]\<rparr>"
  by (simp add: start_execute_def execute_issue_cached)

lemma start_execute_twice:
  assumes "truthy (uid (svc c))"
  shows "outstanding (start_execute e (start_execute e c m1 f1 a1 k1) m2 f2 a2 k2)
         = outstanding c @
           [post (prefs (svc c)) (requestBody (prefs (svc c)) (uid (svc c)) m1 f1 a1 k1
              (correlation_id (math_random e (draws (svc c))))),
            post (prefs (svc c)) (requestBody (prefs (svc c)) (uid (svc c)) m2 f2 a2 k2
              (correlation_id (math_random e (Suc (draws (svc c))))))]"
proof -
  let ?c1 = "start_execute e c m1 f1 a1 k1"
  have c1: "?c1 = c\<lparr>svc := send (requestBody (prefs (svc c)) (uid (svc c)) m1 f1 a1 k1 (next_id e (svc c))) (svc c),
       outstanding := outstanding c @
         [post (prefs (svc c)) (requestBody (prefs (svc c)) (uid (svc c)) m1 f1 a1 k1 (next_id e (svc c)))]\<rparr>"
    using assms by (rule start_execute_cached)
  have u: "truthy (uid (svc ?c1))"
    using assms by (simp add: c1)
  show ?thesis
    by (simp add: start_execute_cached [OF u]) (simp add: c1 next_id_def)
qed

text \<open>
  C9, as the claim states it, fails: the identifier is a function of one draw of the
  random source and of nothing else. A client with a session starts two calls of
  \<open>execute\<close>, on two models, and neither is answered: two different requests are
  outstanding together, and with two draws of one half both carry the identifier 500000.
\<close>

theorem correlation_id_unique_counterexample:
  "length (outstanding
      (start_execute acme_env
         (start_execute acme_env idle_client ''project.project'' ''search_read'' [JArr []] [])
         ''helpdesk.team'' ''search_read'' [JArr []] [])) = 2
   \<and> distinct (outstanding
      (start_execute acme_env
         (start_execute acme_env idle_client ''project.project'' ''search_read'' [JArr []] [])
         ''helpdesk.team'' ''search_read'' [JArr []] []))
   \<and> map (\<lambda>r. rpc_id (body r)) (outstanding
      (start_execute acme_env
         (start_execute acme_env idle_client ''project.project'' ''search_read'' [JArr []] [])
         ''helpdesk.team'' ''search_read'' [JArr []] []))
     = [500000, 500000]"
proof -
  have c: "truthy (uid (svc idle_client))"
    by (simp add: idle_client_def logged_in_def)
  have o: "outstanding idle_client = []"
    by (simp add: idle_client_def)
  have i: "correlation_id (math_random acme_env k) = 500000" for k
    by (simp add: acme_env_def correlation_id_half)
  show ?thesis
    by (simp add: start_execute_twice [OF c] o i post_def requestBody_def)
qed

text \<open>
  C9, amended. Every request that \<open>execute\<close> sends (the login and the \<open>execute_kw\<close> call)
  carries as identifier \<open>Math.floor(Math.random() * 1000000)\<close> for a draw of the random
  source made for that request alone: the floor of the double nearest to one million
  times the draw, which for a draw that is a double from 0 (included) to 1 (excluded) is
  an integer from 0 to 999999. When a client with a session starts two calls and neither
  is answered, the two outstanding requests carry the identifiers of two successive
  draws; they are distinct when these two values differ, and nothing else keeps them
  apart.
\<close>

theorem correlation_id_from_draw:
  "(\<exists>new. sent (snd (execute e s model meth as kw)) = sent s @ new
        \<and> draws (snd (execute e s model meth as kw)) = draws s + length new
        \<and> (\<forall>i<length new.
              rpc_id (body (new ! i)) = \<lfloor>to_double (math_random e (draws s + i) * 1000000)\<rfloor>))
   \<and> (truthy (uid (svc c)) \<longrightarrow>
        (\<exists>r1 r2. outstanding (start_execute e (start_execute e c m1 f1 a1 k1) m2 f2 a2 k2)
                   = outstanding c @ [r1, r2]
           \<and> rpc_id (body r1) = \<lfloor>to_double (math_random e (draws (svc c)) * 1000000)\<rfloor>
           \<and> rpc_id (body r2) = \<lfloor>to_double (math_random e (Suc (draws (svc c))) * 1000000)\<rfloor>))
   \<and> (is_double r \<and> 0 \<le> r \<and> r < 1 \<longrightarrow>
        0 \<le> \<lfloor>to_double (r * 1000000)\<rfloor> \<and> \<lfloor>to_double (r * 1000000)\<rfloor> < 1000000)"
proof (intro conjI impI)
  show "\<exists>new. sent (snd (execute e s model meth as kw)) = sent s @ new
        \<and> draws (snd (execute e s model meth as kw)) = draws s + length new
        \<and> (\<forall>i<length new.
              rpc_id (body (new ! i)) = \<lfloor>to_double (math_random e (draws s + i) * 1000000)\<rfloor>)"
    using execute_requests [of e s model meth as kw] by (simp add: correlation_id_def)
next
  assume "truthy (uid (svc c))"
  then have "outstanding (start_execute e (start_execute e c m1 f1 a1 k1) m2 f2 a2 k2)
         = outstanding c @
           [post (prefs (svc c)) (requestBody (prefs (svc c)) (uid (svc c)) m1 f1 a1 k1
              (correlation_id (math_random e (draws (svc c))))),
            post (prefs (svc c)) (requestBody (prefs (svc c)) (uid (svc c)) m2 f2 a2 k2
              (correlation_id (math_random e (Suc (draws (svc c))))))]"
    by (rule start_execute_twice)
  then show "\<exists>r1 r2. outstanding (start_execute e (start_execute e c m1 f1 a1 k1) m2 f2 a2 k2)
                   = outstanding c @ [r1, r2]
           \<and> rpc_id (body r1) = \<lfloor>to_double (math_random e (draws (svc c)) * 1000000)\<rfloor>
           \<and> rpc_id (body r2) = \<lfloor>to_double (math_random e (Suc (draws (svc c))) * 1000000)\<rfloor>"
    by (simp add: correlation_id_def)
next
  assume a: "is_double r \<and> 0 \<le> r \<and> r < 1"
  then have "0 \<le> correlation_id r \<and> correlation_id r < 1000000"
    by (intro correlation_id_range) simp_all
  then show "0 \<le> \<lfloor>to_double (r * 1000000)\<rfloor>" and "\<lfloor>to_double (r * 1000000)\<rfloor> < 1000000"
    by (simp_all only: correlation_id_def)
qed

lemma first_execute_sends_two:
  "length (sent (snd (execute two_draws_env (new_OdooService acme) model meth as kw))) = 2"
proof -
  have n: "\<not> truthy (uid (new_OdooService acme))"
    by (simp add: new_OdooService_def)
  have r: "rpc_reply (fetch two_draws_env log) = Inr (JNum 7)" for log
    by (simp add: two_draws_env_def reply_200_def ok_def or_else_def)
  have z: "sent (new_OdooService acme) = []"
    by (simp add: new_OdooService_def)
  show ?thesis
    by (simp add: execute_def authenticate_uncached [OF n] r Let_def z)
qed

theorem correlation_id_from_draw_witness:
  "truthy (uid (svc idle_client))
   \<and> map (\<lambda>r. rpc_id (body r))
        (sent (snd (execute two_draws_env (new_OdooService acme) ''project.project'' ''search_read'' [JArr []] [])))
       = [500000, 3247]
   \<and> map (\<lambda>r. rpc_id (body r))
        (outstanding (start_execute two_draws_env
           (start_execute two_draws_env idle_client ''project.project'' ''search_read'' [JArr []] [])
           ''helpdesk.team'' ''search_read'' [JArr []] []))
       = [500000, 3247]
   \<and> is_double (1 / 2) \<and> (0::real) \<le> 1 / 2 \<and> (1 / 2 :: real) < 1
   \<and> 0 \<le> \<lfloor>to_double (1 / 2 * 1000000)\<rfloor> \<and> \<lfloor>to_double (1 / 2 * 1000000)\<rfloor> < 1000000"
proof -
  let ?s = "snd (execute two_draws_env (new_OdooService acme) ''project.project'' ''search_read'' [JArr []] [])"
  let ?c = "start_execute two_draws_env
              (start_execute two_draws_env idle_client ''project.project'' ''search_read'' [JArr []] [])
              ''helpdesk.team'' ''search_read'' [JArr []] []"
  note t = correlation_id_from_draw [of two_draws_env "new_OdooService acme" "''project.project''"
      "''search_read''" "[JArr []]" "[]" idle_client "''project.project''" "''search_read''" "[JArr []]" "[]"
      "''helpdesk.team''" "''search_read''" "[JArr []]" "[]"]
  have h: "truthy (uid (svc idle_client))"
    by (simp add: idle_client_def logged_in_def)
  have d0: "math_random two_draws_env 0 = 1 / 2"
    and d1: "math_random two_draws_env (Suc 0) = 14623187990072 / 2 ^ 52"
    by (simp_all add: two_draws_env_def)
  have c0: "correlation_id (math_random two_draws_env 0) = 500000"
    by (simp only: d0 correlation_id_half)
  have c1: "correlation_id (math_random two_draws_env (Suc 0)) = 3247"
    by (simp only: d1 correlation_id_rounded_up)
  have z: "sent (new_OdooService acme) = []" "draws (new_OdooService acme) = 0"
    "outstanding idle_client = []" "draws (svc idle_client) = 0"
    by (simp_all add: new_OdooService_def idle_client_def logged_in_def)
  obtain new where n: "sent ?s = sent (new_OdooService acme) @ new"
    "\<forall>i<length new. rpc_id (body (new ! i))
        = \<lfloor>to_double (math_random two_draws_env (draws (new_OdooService acme) + i) * 1000000)\<rfloor>"
    using t by blast
  have n2: "\<forall>i<length new. rpc_id (body (new ! i))
        = correlation_id (math_random two_draws_env (draws (new_OdooService acme) + i))"
    using n(2) by (simp only: correlation_id_def)
  have l: "length new = 2"
    using n(1) first_execute_sends_two [of "''project.project''" "''search_read''" "[JArr []]" "[]"]
    by (simp add: z)
  then obtain x y where xy: "new = [x, y]"
    by (cases new; cases "tl new") auto
  have ids: "rpc_id (body x) = 500000" "rpc_id (body y) = 3247"
    using n2 [rule_format, of 0] n2 [rule_format, of 1]
    by (simp_all add: xy z c0 c1)
  have w1: "map (\<lambda>r. rpc_id (body r)) (sent ?s) = [500000, 3247]"
    by (simp add: n(1) z xy ids)
  obtain r1 r2 where r: "outstanding ?c = outstanding idle_client @ [r1, r2]"
    "rpc_id (body r1) = \<lfloor>to_double (math_random two_draws_env (draws (svc idle_client)) * 1000000)\<rfloor>"
    "rpc_id (body r2) = \<lfloor>to_double (math_random two_draws_env (Suc (draws (svc idle_client))) * 1000000)\<rfloor>"
    using t h by blast
  have r': "rpc_id (body r1) = correlation_id (math_random two_draws_env (draws (svc idle_client)))"
    "rpc_id (body r2) = correlation_id (math_random two_draws_env (Suc (draws (svc idle_client))))"
    using r(2,3) by (simp_all only: correlation_id_def)
  have w2: "map (\<lambda>r. rpc_id (body r)) (outstanding ?c) = [500000, 3247]"
    by (simp add: r(1) r' z c0 c1)
  have dh: "is_double (1 / 2)"
    by (rule is_double_half)
  have q: "(0::real) \<le> 1 / 2" "(1 / 2 :: real) < 1"
    by simp_all
  have w3: "0 \<le> \<lfloor>to_double (1 / 2 * 1000000)\<rfloor>" "\<lfloor>to_double (1 / 2 * 1000000)\<rfloor> < 1000000"
    using correlation_id_from_draw [where r = "1 / 2"] dh q by blast+
  show ?thesis
    by (intro conjI) (rule h w1 w2 dh q w3)+
qed

section \<open>The shape of the queries\<close>

lemma update_absent: "map_of kvs k = None \<Longrightarrow> AList.update k v kvs = kvs @ [(k, v)]"
  by (induction kvs) (auto split: if_splits)

lemma update_same: "map_of kvs k = Some v \<Longrightarrow> AList.update k v kvs = kvs"
  by (induction kvs) (auto split: if_splits)

text \<open>
  C6. The \<open>execute_kw\<close> request of \<open>searchByName\<close> on \<open>project.project\<close>, text \<open>web\<close>
  and a projection of three fields: the positional arguments hold the predicate, and the
  options hold the projection and the predicate again under \<open>domain\<close>.
\<close>

theorem searchByName_sends_domain_twice:
  "map (\<lambda>r. args (params (body r)))
     (sent (snd (searchByName acme_env logged_in ''project.project'' ''web'' [(''fields'', name_fields)])))
   = [[JStr ''acme'', JNum 7, JStr ''k'', JStr ''project.project'', JStr ''search_read'',
       JArr [JArr [JStr ''|'', JArr [JStr ''name'', JStr ''ilike'', JStr ''web''],
                   JArr [JStr ''display_name'', JStr ''ilike'', JStr ''web'']]],
       JObj [(''fields'', name_fields),
             (''domain'', JArr [JStr ''|'', JArr [JStr ''name'', JStr ''ilike'', JStr ''web''],
                               JArr [JStr ''display_name'', JStr ''ilike'', JStr ''web'']])]]]"
proof -
  have c: "truthy (uid logged_in)"
    by (simp add: logged_in_def)
  have f: "sent logged_in = []" "prefs logged_in = acme" "uid logged_in = JNum 7"
    by (simp_all add: logged_in_def new_OdooService_def)
  show ?thesis
    by (simp add: searchByName_def Let_def searchRead_sent_cached [OF c] f post_def requestBody_def
        name_domain_def acme_def)
qed

text \<open>
  C7. \<open>getAll\<close> goes through \<open>searchRead\<close> with the empty predicate. Without options it
  asks for no fields and the limit 100; with options that have no \<open>limit\<close> it adds the
  limit 100 to them; with a truthy \<open>limit\<close> it passes the options as they are. With a
  populated cache, the request for \<open>{fields}\<close> carries the method \<open>search_read\<close>, the
  arguments \<open>[[]]\<close> and the options \<open>{fields, limit: 100}\<close>.
\<close>

theorem getAll_shape:
  "getAll e s model None = searchRead e s model [] [(''fields'', JArr []), (''limit'', JNum 100)]
   \<and> (map_of opts ''limit'' = None \<longrightarrow>
        getAll e s model (Some opts) = searchRead e s model [] (opts @ [(''limit'', JNum 100)]))
   \<and> (map_of opts ''limit'' = Some v \<and> truthy v \<longrightarrow>
        getAll e s model (Some opts) = searchRead e s model [] opts)
   \<and> (truthy (uid s) \<longrightarrow>
        sent (snd (getAll e s model (Some [(''fields'', fs)])))
          = sent s @ [post (prefs s) (requestBody (prefs s) (uid s) model ''search_read'' [JArr []]
                        [(''fields'', fs), (''limit'', JNum 100)] (next_id e s))])"
  by (simp add: getAll_def or_else_def searchRead_sent_cached update_absent update_same)

theorem getAll_shape_witness:
  "map_of [(''fields'', name_fields)] ''limit'' = None
   \<and> map_of [(''fields'', name_fields), (''limit'', JNum 7)] ''limit'' = Some (JNum 7)
   \<and> truthy (JNum 7) \<and> truthy (uid logged_in)
   \<and> getAll acme_env logged_in ''project.project'' (Some [(''fields'', name_fields)])
       = searchRead acme_env logged_in ''project.project'' [] [(''fields'', name_fields), (''limit'', JNum 100)]
   \<and> getAll acme_env logged_in ''project.project'' (Some [(''fields'', name_fields), (''limit'', JNum 7)])
       = searchRead acme_env logged_in ''project.project'' [] [(''fields'', name_fields), (''limit'', JNum 7)]
   \<and> map (\<lambda>r. args (params (body r)))
        (sent (snd (getAll acme_env logged_in ''project.project'' (Some [(''fields'', name_fields)]))))
       = [[JStr ''acme'', JNum 7, JStr ''k'', JStr ''project.project'', JStr ''search_read'',
           JArr [JArr []], JObj [(''fields'', name_fields), (''limit'', JNum 100)]]]"
proof -
  have c: "truthy (uid logged_in)"
    by (simp add: logged_in_def)
  have f: "sent logged_in = []" "prefs logged_in = acme" "uid logged_in = JNum 7"
    by (simp_all add: logged_in_def new_OdooService_def)
  have a0: "getAll acme_env logged_in ''project.project'' (Some [(''fields'', name_fields)])
       = searchRead acme_env logged_in ''project.project'' [] [(''fields'', name_fields), (''limit'', JNum 100)]"
    using getAll_shape [of acme_env logged_in "''project.project''" "[(''fields'', name_fields)]"]
    by simp
  have a: "getAll acme_env logged_in ''project.project'' (Some [(''fields'', name_fields), (''limit'', JNum 7)])
       = searchRead acme_env logged_in ''project.project'' [] [(''fields'', name_fields), (''limit'', JNum 7)]"
    using getAll_shape [of acme_env logged_in "''project.project''"
        "[(''fields'', name_fields), (''limit'', JNum 7)]" "JNum 7"]
    by simp
  have b: "sent (snd (getAll acme_env logged_in ''project.project'' (Some [(''fields'', name_fields)])))
       = sent logged_in @ [post (prefs logged_in) (requestBody (prefs logged_in) (uid logged_in)
            ''project.project'' ''search_read'' [JArr []]
            [(''fields'', name_fields), (''limit'', JNum 100)] (next_id acme_env logged_in))]"
    using c getAll_shape [of acme_env logged_in "''project.project''" _ _ name_fields] by blast
  have w: "map (\<lambda>r. args (params (body r)))
        (sent (snd (getAll acme_env logged_in ''project.project'' (Some [(''fields'', name_fields)]))))
       = [[JStr ''acme'', JNum 7, JStr ''k'', JStr ''project.project'', JStr ''search_read'',
           JArr [JArr []], JObj [(''fields'', name_fields), (''limit'', JNum 100)]]]"
    by (simp add: b f post_def requestBody_def acme_def)
  have m: "map_of [(''fields'', name_fields)] ''limit'' = None"
    "map_of [(''fields'', name_fields), (''limit'', JNum 7)] ''limit'' = Some (JNum 7)"
    "truthy (JNum 7)"
    by simp_all
  show ?thesis
    by (intro conjI) (rule m c a0 a w)+
qed

text \<open>
  C10. When the caller passes \<open>limit: 0\<close>, \<open>getAll\<close> searches with the limit 100: the
  options it passes on are the caller's with \<open>limit\<close> set to 100, and with a populated
  cache these are the options of the request sent.
\<close>

theorem getAll_zero_limit:
  assumes "map_of opts ''limit'' = Some (JNum 0)"
  shows "getAll e s model (Some opts) = searchRead e s model [] (AList.update ''limit'' (JNum 100) opts)
       \<and> map_of (AList.update ''limit'' (JNum 100) opts) ''limit'' = Some (JNum 100)
       \<and> (truthy (uid s) \<longrightarrow>
            sent (snd (getAll e s model (Some opts)))
              = sent s @ [post (prefs s) (requestBody (prefs s) (uid s) model ''search_read'' [JArr []]
                            (AList.update ''limit'' (JNum 100) opts) (next_id e s))])"
  using assms by (simp add: getAll_def or_else_def searchRead_sent_cached update_conv')

theorem getAll_zero_limit_witness:
  "map_of [(''fields'', name_fields), (''limit'', JNum 0)] ''limit'' = Some (JNum 0)
   \<and> truthy (uid logged_in)
   \<and> map (\<lambda>r. args (params (body r)))
        (sent (snd (getAll acme_env logged_in ''project.project''
                      (Some [(''fields'', name_fields), (''limit'', JNum 0)]))))
       = [[JStr ''acme'', JNum 7, JStr ''k'', JStr ''project.project'', JStr ''search_read'',
           JArr [JArr []], JObj [(''fields'', name_fields), (''limit'', JNum 100)]]]"
proof -
  have h: "map_of [(''fields'', name_fields), (''limit'', JNum 0)] ''limit'' = Some (JNum 0)"
    by simp
  have c: "truthy (uid logged_in)"
    by (simp add: logged_in_def)
  have f: "sent logged_in = []" "prefs logged_in = acme" "uid logged_in = JNum 7"
    by (simp_all add: logged_in_def new_OdooService_def)
  have b: "sent (snd (getAll acme_env logged_in ''project.project''
                      (Some [(''fields'', name_fields), (''limit'', JNum 0)])))
       = sent logged_in @ [post (prefs logged_in) (requestBody (prefs logged_in) (uid logged_in)
            ''project.project'' ''search_read'' [JArr []]
            (AList.update ''limit'' (JNum 100) [(''fields'', name_fields), (''limit'', JNum 0)])
            (next_id acme_env logged_in))]"
    using c getAll_zero_limit [OF h, of acme_env logged_in "''project.project''"] by blast
  show ?thesis
    using c by (simp add: b f post_def requestBody_def acme_def)
qed

section \<open>The search view: minimum length and debounce\<close>

lemma on_timeout_length: "length (on_timeout txt) \<le> 1"
  by (simp add: on_timeout_def searchProjects_def getAllProjects_def)

lemma timer_current_mount: "timer_current mount"
  by (simp add: timer_current_def mount_def)

lemma timer_current_setSearchText: "timer_current v \<Longrightarrow> timer_current (setSearchText t v)"
  by (simp add: timer_current_def setSearchText_def)

lemma timer_current_elapse: "timer_current v \<Longrightarrow> timer_current (elapse d v)"
  by (auto simp add: timer_current_def elapse_def split: option.splits)

lemma timer_current_run: "timer_current v \<Longrightarrow> timer_current (run evs v)"
proof (induction evs arbitrary: v)
  case Nil
  then show ?case by simp
next
  case (Cons ev evs)
  then show ?case
    by (cases ev) (simp_all add: timer_current_setSearchText timer_current_elapse)
qed

lemma armed_setSearchText: "t \<noteq> searchText v \<Longrightarrow> armed (setSearchText t v)"
  by (simp add: armed_def setSearchText_def)

lemma setSearchText_fields:
  "t \<noteq> searchText v \<Longrightarrow> searchText (setSearchText t v) = t"
  "calls (setSearchText t v) = calls v"
  by (simp_all add: setSearchText_def)

lemma elapse_armed_early:
  "armed v \<Longrightarrow> d < 300 \<Longrightarrow> elapse d v = v\<lparr>clock := clock v + d\<rparr>"
  by (simp add: armed_def elapse_def)

lemma elapse_armed_calls:
  "armed v \<Longrightarrow> calls (elapse d v) = calls v @ (if 300 \<le> d then on_timeout (searchText v) else [])"
  by (simp add: armed_def elapse_def)

lemma keystrokes_Cons: "keystrokes ((d, t) # ks) = Wait d # Type t # keystrokes ks"
  by (simp add: keystrokes_def)

lemma keystrokes_Nil: "keystrokes [] = []"
  by (simp add: keystrokes_def)

lemma run_keystrokes_armed:
  assumes "armed v"
    and "\<forall>(d, t) \<in> set ks. d < 300"
    and "changes (searchText v) (map snd ks)"
  shows "armed (run (keystrokes ks) v)
       \<and> searchText (run (keystrokes ks) v) = last (searchText v # map snd ks)
       \<and> calls (run (keystrokes ks) v) = calls v"
  using assms
proof (induction ks arbitrary: v)
  case Nil
  then show ?case
    by (simp add: keystrokes_Nil)
next
  case (Cons k ks)
  obtain d t where k: "k = (d, t)"
    by (cases k)
  let ?w = "setSearchText t (elapse d v)"
  have d: "d < 300" and t: "t \<noteq> searchText v"
    using Cons.prems k by simp_all
  have e: "elapse d v = v\<lparr>clock := clock v + d\<rparr>"
    using Cons.prems(1) d by (rule elapse_armed_early)
  have t': "t \<noteq> searchText (elapse d v)"
    using t by (simp add: e)
  have w1: "armed ?w"
    using t' by (rule armed_setSearchText)
  have w2: "searchText ?w = t" "calls ?w = calls v"
    using t' by (simp_all add: setSearchText_fields e)
  have "armed (run (keystrokes ks) ?w)
       \<and> searchText (run (keystrokes ks) ?w) = last (searchText ?w # map snd ks)
       \<and> calls (run (keystrokes ks) ?w) = calls ?w"
    using Cons.prems k by (intro Cons.IH w1) (simp_all add: w2)
  then show ?case
    by (simp add: k keystrokes_Cons w2)
qed

text \<open>
  C2, as the claim states it, fails on a text of two spaces: its length is 2, and the
  timer's callback dispatches no query, because \<open>searchProjects\<close> returns at once on a
  text that is empty after trimming. In the earlier variant of the view a firing on the
  empty text dispatches no listing.
\<close>

theorem minimum_length_gate_counterexample:
  "2 \<le> length ''  '' \<and> on_timeout ''  '' = []
   \<and> on_timeout ''  '' \<noteq> [SearchByName ''project.project'' ''  '' [(''fields'', project_fields)]]
   \<and> length [] = (0::nat) \<and> on_timeout_legacy [] = []"
  by (simp add: on_timeout_def on_timeout_legacy_def searchProjects_def trim_def is_ws_def)

text \<open>
  C2, amended. In a view reached from mounting by text changes and waiting, a timer that
  fires holds the current search text, and its callback adds to the service calls:
  nothing for a text of length 1; the listing \<open>getAll\<close> with the limit 100 for the empty
  text; \<open>searchByName\<close> with the text when its length is at least 2 and it is not
  empty after trimming; nothing when its length is at least 2 and it is blank. The earlier
  variant of the view sends its own search for a text of length at least 2 that is not
  blank, and nothing otherwise.
\<close>

theorem minimum_length_gate:
  "(v = run evs mount \<and> timer v = Some (due, q) \<and> due \<le> clock v + d \<longrightarrow>
      q = searchText v \<and> calls (elapse d v) = calls v @ on_timeout q)
   \<and> (length q = 1 \<longrightarrow> on_timeout q = [])
   \<and> (length q = 0 \<longrightarrow>
        on_timeout q = [GetAll ''project.project'' [(''fields'', project_fields), (''limit'', JNum 100)]])
   \<and> (2 \<le> length q \<and> trim q \<noteq> [] \<longrightarrow>
        on_timeout q = [SearchByName ''project.project'' q [(''fields'', project_fields)]])
   \<and> (2 \<le> length q \<and> trim q = [] \<longrightarrow> on_timeout q = [])
   \<and> (2 \<le> length q \<and> trim q \<noteq> [] \<longrightarrow> on_timeout_legacy q = [InlineSearch q])
   \<and> (length q < 2 \<or> trim q = [] \<longrightarrow> on_timeout_legacy q = [])"
proof -
  have fire: "q = searchText v \<and> calls (elapse d v) = calls v @ on_timeout q"
    if a: "v = run evs mount \<and> timer v = Some (due, q) \<and> due \<le> clock v + d"
  proof -
    from a have v: "v = run evs mount" and t: "timer v = Some (due, q)" and c: "due \<le> clock v + d"
      by blast+
    have "timer_current v"
      unfolding v by (rule timer_current_run) (rule timer_current_mount)
    then have "q = searchText v"
      by (simp add: timer_current_def t)
    moreover have "calls (elapse d v) = calls v @ on_timeout q"
      using c by (simp add: elapse_def t)
    ultimately show ?thesis
      by simp
  qed
  have gate: "(length q = 1 \<longrightarrow> on_timeout q = [])
   \<and> (length q = 0 \<longrightarrow>
        on_timeout q = [GetAll ''project.project'' [(''fields'', project_fields), (''limit'', JNum 100)]])
   \<and> (2 \<le> length q \<and> trim q \<noteq> [] \<longrightarrow>
        on_timeout q = [SearchByName ''project.project'' q [(''fields'', project_fields)]])
   \<and> (2 \<le> length q \<and> trim q = [] \<longrightarrow> on_timeout q = [])"
    by (simp add: on_timeout_def searchProjects_def getAllProjects_def)
  have legacy: "(2 \<le> length q \<and> trim q \<noteq> [] \<longrightarrow> on_timeout_legacy q = [InlineSearch q])
   \<and> (length q < 2 \<or> trim q = [] \<longrightarrow> on_timeout_legacy q = [])"
    by (auto simp add: on_timeout_legacy_def searchProjects_legacy_def)
  show ?thesis
    using fire gate legacy by blast
qed

theorem minimum_length_gate_witness:
  "timer (run [Type ''w'', Wait 100, Type ''we''] mount) = Some (400, ''we'')
   \<and> 400 \<le> clock (run [Type ''w'', Wait 100, Type ''we''] mount) + 300
   \<and> 2 \<le> length ''we'' \<and> trim ''we'' \<noteq> []
   \<and> calls (elapse 300 (run [Type ''w'', Wait 100, Type ''we''] mount))
       = calls (run [Type ''w'', Wait 100, Type ''we''] mount)
         @ [SearchByName ''project.project'' ''we'' [(''fields'', project_fields)]]
   \<and> length ''w'' = 1 \<and> on_timeout ''w'' = []
   \<and> length [] = (0::nat)
   \<and> on_timeout [] = [GetAll ''project.project'' [(''fields'', project_fields), (''limit'', JNum 100)]]
   \<and> 2 \<le> length ''  '' \<and> trim ''  '' = [] \<and> on_timeout ''  '' = []
   \<and> on_timeout_legacy ''we'' = [InlineSearch ''we'']
   \<and> on_timeout_legacy ''w'' = []"
proof -
  let ?v = "run [Type ''w'', Wait 100, Type ''we''] mount"
  have tm: "timer ?v = Some (400, ''we'')" and ck: "400 \<le> clock ?v + 300"
    by (simp_all add: mount_def setSearchText_def elapse_def)
  have we: "2 \<le> length ''we''" "trim ''we'' \<noteq> []"
    by (simp_all add: trim_def is_ws_def)
  have w: "length ''w'' = 1"
    by simp
  have b: "2 \<le> length ''  ''" "trim ''  '' = []"
    by (simp_all add: trim_def is_ws_def)
  note g = minimum_length_gate [where v = "?v" and evs = "[Type ''w'', Wait 100, Type ''we'']"
      and due = 400 and q = "''we''" and d = 300]
  have c1: "calls (elapse 300 ?v) = calls ?v @ [SearchByName ''project.project'' ''we'' [(''fields'', project_fields)]]"
    using g tm ck we by simp
  have c2: "on_timeout_legacy ''we'' = [InlineSearch ''we'']"
    using g we by simp
  have c3: "on_timeout ''w'' = []" "on_timeout_legacy ''w'' = []"
    using minimum_length_gate [where q = "''w''"] w by simp_all
  have c4: "on_timeout [] = [GetAll ''project.project'' [(''fields'', project_fields), (''limit'', JNum 100)]]"
    using minimum_length_gate [where q = "[]"] by simp
  have c5: "on_timeout ''  '' = []"
    using minimum_length_gate [where q = "''  ''"] b by simp
  show ?thesis
    using tm ck we w b c1 c2 c3 c4 c5 by simp
qed

text \<open>
  C3. One text change, then any number of further text changes, each less than 300 after
  the event before it and each to a text other than the current one, then a wait of any
  length: in all, the service calls grow by at most one call, made only when the wait
  reaches 300, and it is the call the callback makes on the text of the last change.
\<close>

theorem debounce_coalescing:
  assumes "\<forall>(d, t) \<in> set ks. d < 300"
    and "changes (searchText v) (t1 # map snd ks)"
  shows "calls (elapse D (run (Type t1 # keystrokes ks) v))
           = calls v @ (if 300 \<le> D then on_timeout (last (t1 # map snd ks)) else [])
       \<and> length (calls (elapse D (run (Type t1 # keystrokes ks) v))) \<le> Suc (length (calls v))"
proof -
  let ?w = "setSearchText t1 v"
  have t: "t1 \<noteq> searchText v" and c: "changes t1 (map snd ks)"
    using assms(2) by simp_all
  have w: "armed ?w" "searchText ?w = t1" "calls ?w = calls v"
    using t by (simp_all add: armed_setSearchText setSearchText_fields)
  have r: "armed (run (keystrokes ks) ?w)
       \<and> searchText (run (keystrokes ks) ?w) = last (searchText ?w # map snd ks)
       \<and> calls (run (keystrokes ks) ?w) = calls ?w"
    using w(1) assms(1) c by (intro run_keystrokes_armed) (simp_all add: w(2))
  have eq: "calls (elapse D (run (Type t1 # keystrokes ks) v))
           = calls v @ (if 300 \<le> D then on_timeout (last (t1 # map snd ks)) else [])"
    using r by (simp add: elapse_armed_calls w)
  have "length (if 300 \<le> D then on_timeout (last (t1 # map snd ks)) else []) \<le> 1"
    using on_timeout_length by simp
  then show ?thesis
    unfolding eq by simp
qed

theorem debounce_coalescing_witness:
  "changes (searchText mount) (''w'' # map snd [(100, ''we''), (299, ''web'')])
   \<and> calls (elapse 300 (run (Type ''w'' # keystrokes [(100, ''we''), (299, ''web'')]) mount))
       = calls mount @ [SearchByName ''project.project'' ''web'' [(''fields'', project_fields)]]
   \<and> calls (elapse 299 (run (Type ''w'' # keystrokes [(100, ''we''), (299, ''web'')]) mount))
       = calls mount"
proof -
  have h1: "\<forall>(d, t) \<in> set [(100, ''we''), (299, ''web'')]. d < (300::nat)"
    by simp
  have h2: "changes (searchText mount) (''w'' # map snd [(100::nat, ''we''), (299, ''web'')])"
    by (simp add: mount_def)
  have o: "on_timeout ''web'' = [SearchByName ''project.project'' ''web'' [(''fields'', project_fields)]]"
    by (simp add: on_timeout_def searchProjects_def trim_def is_ws_def)
  show ?thesis
    using h2 debounce_coalescing [OF h1 h2, of 300] debounce_coalescing [OF h1 h2, of 299]
    by (simp add: o)
qed

end
